theory Spec2Isabelle
  imports Complex_Main
begin

section \<open>String helpers (src/utils.h)\<close>

text \<open>
  \<^verbatim>\<open>std::string\<close> is a \<open>string\<close> (a list of bytes).  \<^verbatim>\<open>std::tolower\<close>,
  \<^verbatim>\<open>std::toupper\<close> and \<^verbatim>\<open>std::isspace\<close> are taken in the "C" locale: only the 26
  ASCII letters change case, and the white space characters are space, \<^verbatim>\<open>\t\<close>,
  \<^verbatim>\<open>\n\<close>, \<^verbatim>\<open>\v\<close>, \<^verbatim>\<open>\f\<close> and \<^verbatim>\<open>\r\<close>.
\<close>

definition upper_letters :: string where
  "upper_letters = ''ABCDEFGHIJKLMNOPQRSTUVWXYZ''"

definition lower_letters :: string where
  "lower_letters = ''abcdefghijklmnopqrstuvwxyz''"

definition tolower :: "char \<Rightarrow> char" where
  "tolower ch = (case map_of (zip upper_letters lower_letters) ch of Some l \<Rightarrow> l | None \<Rightarrow> ch)"

definition toupper :: "char \<Rightarrow> char" where
  "toupper ch = (case map_of (zip lower_letters upper_letters) ch of Some u \<Rightarrow> u | None \<Rightarrow> ch)"

definition isspace :: "char \<Rightarrow> bool" where
  "isspace ch = (ch \<in> set [CHR '' '', CHR 0x09, CHR 0x0A, CHR 0x0B, CHR 0x0C, CHR 0x0D])"

definition toLower :: "string \<Rightarrow> string" where
  "toLower s = map tolower s"

definition toUpper :: "string \<Rightarrow> string" where
  "toUpper s = map toupper s"

definition ltrim :: "string \<Rightarrow> string" where
  "ltrim s = dropWhile isspace s"

definition rtrim :: "string \<Rightarrow> string" where
  "rtrim s = rev (dropWhile isspace (rev s))"

definition trim :: "string \<Rightarrow> string" where
  "trim s = rtrim (ltrim s)"

text \<open>
  \<^verbatim>\<open>s.find(sub)\<close>: the first position at which \<open>sub\<close> occurs in \<open>s\<close>, \<open>None\<close> for
  \<^verbatim>\<open>npos\<close>.  The empty string is found at position 0 of every string.
  \<^verbatim>\<open>s.erase(pos, n)\<close> removes \<open>n\<close> characters from position \<open>pos\<close>.
\<close>

fun str_find :: "string \<Rightarrow> string \<Rightarrow> nat option" where
  "str_find sub [] = (if sub = [] then Some 0 else None)"
| "str_find sub (c # cs) =
     (if take (length sub) (c # cs) = sub then Some 0
      else map_option Suc (str_find sub cs))"

definition str_erase :: "string \<Rightarrow> nat \<Rightarrow> nat \<Rightarrow> string" where
  "str_erase s pos n = take pos s @ drop (pos + n) s"


section \<open>Floating point values\<close>

text \<open>
  A \<^verbatim>\<open>float\<close> is modelled as an exact rational or one of the three special values
  of IEEE 754.  Rounding and the sign of zero are not modelled; what is modelled
  is which operations leave the finite numbers: a division by zero gives an
  infinity or NaN, as it does in the program, and not HOL's \<open>x / 0 = 0\<close>.
\<close>

datatype flt = Fin rat | PInf | NInf | NaN

definition fsign :: "flt \<Rightarrow> int" where
  "fsign x = (case x of Fin a \<Rightarrow> (if a < 0 then - 1 else if a = 0 then 0 else 1)
                      | PInf \<Rightarrow> 1 | NInf \<Rightarrow> - 1 | NaN \<Rightarrow> 0)"

definition finf :: "int \<Rightarrow> flt" where
  "finf s = (if s = 0 then NaN else if 0 < s then PInf else NInf)"

definition fmul :: "flt \<Rightarrow> flt \<Rightarrow> flt" where
  "fmul x y =
     (case (x, y) of
        (Fin a, Fin b) \<Rightarrow> Fin (a * b)
      | _ \<Rightarrow> if x = NaN \<or> y = NaN then NaN else finf (fsign x * fsign y))"

definition fdiv :: "flt \<Rightarrow> flt \<Rightarrow> flt" where
  "fdiv x y =
     (case (x, y) of
        (Fin a, Fin b) \<Rightarrow> if b = 0 then finf (fsign x) else Fin (a / b)
      | (Fin a, _) \<Rightarrow> if y = NaN then NaN else Fin 0
      | (_, Fin b) \<Rightarrow> if x = NaN then NaN else finf (fsign x * (if b < 0 then - 1 else 1))
      | _ \<Rightarrow> NaN)"

text \<open>The comparisons \<^verbatim>\<open>x > 0.0f\<close> and \<^verbatim>\<open>x == 0.0f\<close>; both are false on NaN.\<close>

definition f_gt0 :: "flt \<Rightarrow> bool" where
  "f_gt0 x = (case x of Fin a \<Rightarrow> 0 < a | PInf \<Rightarrow> True | _ \<Rightarrow> False)"

definition f_eq0 :: "flt \<Rightarrow> bool" where
  "f_eq0 x = (case x of Fin a \<Rightarrow> a = 0 | _ \<Rightarrow> False)"

text \<open>\<^verbatim>\<open>static_cast<int>\<close> of a \<^verbatim>\<open>long\<close>: the low 32 bits, read as a signed number.\<close>

definition long_to_int :: "int \<Rightarrow> int" where
  "long_to_int x = (x + 2 ^ 31) mod 2 ^ 32 - 2 ^ 31"


section \<open>Camera metadata (src/exif.cpp)\<close>

text \<open>
  The raw metadata of one file is a partial map from tag names to values.  A
  value is read through the conversions of the metadata library
  (\<^verbatim>\<open>toLong\<close>, \<^verbatim>\<open>toFloat\<close>, \<^verbatim>\<open>toString\<close>, \<^verbatim>\<open>toRational(n)\<close>); what each of them
  returns for a tag is a field of the value.  A rational is a pair of 32-bit
  integers, numerator first.
\<close>

record exifValue =
  toLong :: int
  toFloat :: flt
  toString :: string
  toRational :: "nat \<Rightarrow> int \<times> int"

type_synonym exifData = "string \<Rightarrow> exifValue option"

text \<open>\<^verbatim>\<open>findKey\<close>: the first key of the list that is present, \<open>None\<close> for \<^verbatim>\<open>end()\<close>.\<close>

fun findKey :: "exifData \<Rightarrow> string list \<Rightarrow> exifValue option" where
  "findKey exifData [] = None"
| "findKey exifData (k # keys) =
     (case exifData k of Some it \<Rightarrow> Some it | None \<Rightarrow> findKey exifData keys)"

definition extractImageSize :: "exifData \<Rightarrow> int \<times> int" where
  "extractImageSize exifData =
     (case (findKey exifData [''Exif.Photo.PixelXDimension''],
            findKey exifData [''Exif.Photo.PixelYDimension'']) of
        (Some imgWidth, Some imgHeight) \<Rightarrow>
          (long_to_int (toLong imgWidth), long_to_int (toLong imgHeight))
      | _ \<Rightarrow> (- 1, - 1))"

definition extractMake :: "exifData \<Rightarrow> string" where
  "extractMake exifData =
     (case findKey exifData [''Exif.Photo.LensMake'', ''Exif.Image.Make''] of
        Some k \<Rightarrow> toString k | None \<Rightarrow> ''unknown'')"

definition extractModel :: "exifData \<Rightarrow> string" where
  "extractModel exifData =
     (case findKey exifData [''Exif.Photo.LensModel'', ''Exif.Image.Model''] of
        Some k \<Rightarrow> toString k | None \<Rightarrow> ''unknown'')"

text \<open>
  The loop of \<^verbatim>\<open>extractSensor\<close> that removes every occurrence of the make from
  the model:
  \<^verbatim>\<open>while ((pos = model.find(make)) != npos) model.erase(pos, make.length());\<close>
  The loop has no bound of its own, so it is a partial function: \<open>None\<close> is a
  run that never leaves the loop.
\<close>

partial_function (option) eraseMake :: "string \<Rightarrow> string \<Rightarrow> string option" where
  "eraseMake mk model =
     (case str_find mk model of
        None \<Rightarrow> Some model
      | Some pos \<Rightarrow> eraseMake mk (str_erase model pos (length mk)))"

definition extractSensor :: "exifData \<Rightarrow> string option" where
  "extractSensor exifData =
     (let mk = toLower (extractMake exifData);
          model = toLower (extractModel exifData)
      in case (if mk \<noteq> ''unknown'' then eraseMake mk model else Some model) of
           None \<Rightarrow> None
         | Some model' \<Rightarrow> Some (trim mk @ '' '' @ trim model'))"

definition getMmPerUnit :: "int \<Rightarrow> flt" where
  "getMmPerUnit resolutionUnit =
     (if resolutionUnit = 2 then Fin 25.4
      else if resolutionUnit = 3 then Fin 10
      else Fin 0)"

definition extractSensorWidth :: "exifData \<Rightarrow> flt" where
  "extractSensorWidth exifData =
     (case (findKey exifData [''Exif.Photo.FocalPlaneResolutionUnit'',
                              ''Exif.Image.FocalPlaneResolutionUnit''],
            findKey exifData [''Exif.Photo.FocalPlaneXResolution'',
                              ''Exif.Image.FocalPlaneXResolution'']) of
        (Some fUnit, Some fXRes) \<Rightarrow>
          (let mmPerUnit = getMmPerUnit (toLong fUnit)
           in if f_eq0 mmPerUnit then Fin 0
              else (let pixelsPerUnit = toFloat fXRes;
                        unitsPerPixel = fdiv (Fin 1) pixelsPerUnit;
                        widthInPixels = Fin (of_int (fst (extractImageSize exifData)))
                    in fmul (fmul widthInPixels unitsPerPixel) mmPerUnit))
      | _ \<Rightarrow> Fin 0)"

record Focal =
  f35 :: flt
  ratio :: flt

text \<open>
  \<^verbatim>\<open>computeFocal\<close>.  The table \<^verbatim>\<open>sensorData\<close> (sensor identity to sensor width)
  is declared outside the sources at hand and is a parameter.  The second
  branch calls \<^verbatim>\<open>extractSensor\<close>, so it returns only if that call does.
\<close>

definition focalFromSensor :: "(string \<Rightarrow> flt option) \<Rightarrow> exifData \<Rightarrow> exifValue option \<Rightarrow> Focal option" where
  "focalFromSensor sensorData exifData focal =
     (let sensorWidth0 = extractSensorWidth exifData
      in case extractSensor exifData of
           None \<Rightarrow> None
         | Some sensor \<Rightarrow>
             (let sensorWidth =
                    (case sensorData sensor of
                       Some w \<Rightarrow> if f_eq0 sensorWidth0 then w else sensorWidth0
                     | None \<Rightarrow> sensorWidth0)
              in case focal of
                   Some fl \<Rightarrow>
                     if f_gt0 sensorWidth
                     then Some \<lparr>f35 = fmul (Fin 36) (fdiv (toFloat fl) sensorWidth),
                                ratio = fdiv (toFloat fl) sensorWidth\<rparr>
                     else Some \<lparr>f35 = Fin 0, ratio = Fin 0\<rparr>
                 | None \<Rightarrow> Some \<lparr>f35 = Fin 0, ratio = Fin 0\<rparr>))"

definition computeFocal :: "(string \<Rightarrow> flt option) \<Rightarrow> exifData \<Rightarrow> Focal option" where
  "computeFocal sensorData exifData =
     (let focal35 = findKey exifData [''Exif.Photo.FocalLengthIn35mmFilm'',
                                      ''Exif.Image.FocalLengthIn35mmFilm''];
          focal = findKey exifData [''Exif.Photo.FocalLength'', ''Exif.Image.FocalLength'']
      in case focal35 of
           Some v \<Rightarrow>
             if f_gt0 (toFloat v)
             then Some \<lparr>f35 = toFloat v, ratio = fdiv (toFloat v) (Fin 36)\<rparr>
             else focalFromSensor sensorData exifData focal
         | None \<Rightarrow> focalFromSensor sensorData exifData focal)"

text \<open>
  Geolocation works on \<^verbatim>\<open>double\<close>.  \<^verbatim>\<open>evalFrac\<close> divides two 32-bit integers and
  guards the zero denominator, and \<^verbatim>\<open>geoToDecimal\<close> divides by the constants 60
  and 3600 only, so every value that occurs is finite: the doubles are exact
  rationals here (rounding is not modelled).
\<close>

definition evalFrac :: "int \<times> int \<Rightarrow> rat" where
  "evalFrac rational =
     (if snd rational = 0 then 0 else of_int (fst rational) / of_int (snd rational))"

definition geoToDecimal :: "exifValue option \<Rightarrow> exifValue option \<Rightarrow> rat" where
  "geoToDecimal geoTag geoRefTag =
     (case geoTag of
        None \<Rightarrow> 0
      | Some g \<Rightarrow>
          (let sign = (case geoRefTag of
                         None \<Rightarrow> 1
                       | Some r \<Rightarrow>
                           (let ref = toUpper (toString r)
                            in if ref = ''S'' \<or> ref = ''W'' then - 1 else 1));
               degrees = evalFrac (toRational g 0);
               minutes = evalFrac (toRational g 1);
               seconds = evalFrac (toRational g 2)
           in sign * (degrees + minutes / 60 + seconds / 3600)))"


section \<open>Paths\<close>

text \<open>
  An \<^verbatim>\<open>fs::path\<close> is modelled by its string, in the POSIX format: the separator
  is \<^verbatim>\<open>/\<close> and a path is absolute when it starts with one.  The decomposition
  functions follow \<^verbatim>\<open>std::filesystem\<close>: \<^verbatim>\<open>filename()\<close> is what follows the last
  separator; \<^verbatim>\<open>parent_path()\<close> drops the filename and the separators before it,
  except that the parent of the root directory is the root directory itself;
  \<^verbatim>\<open>has_parent_path()\<close> says that \<^verbatim>\<open>parent_path()\<close> is not empty; and \<^verbatim>\<open>a / b\<close>
  is \<open>b\<close> when \<open>b\<close> is absolute, otherwise \<open>b\<close> appended to \<open>a\<close> after a separator.
\<close>

definition is_absolute :: "string \<Rightarrow> bool" where
  "is_absolute p = (case p of [] \<Rightarrow> False | c # cs \<Rightarrow> c = CHR ''/'')"

definition filename :: "string \<Rightarrow> string" where
  "filename p = rev (takeWhile (\<lambda>c. c \<noteq> CHR ''/'') (rev p))"

definition parent_path :: "string \<Rightarrow> string" where
  "parent_path p =
     (let stem = rev (dropWhile (\<lambda>c. c = CHR ''/'') (dropWhile (\<lambda>c. c \<noteq> CHR ''/'') (rev p)))
      in if stem = [] \<and> is_absolute p then ''/'' else stem)"

definition has_parent_path :: "string \<Rightarrow> bool" where
  "has_parent_path p = (parent_path p \<noteq> [])"

definition path_append :: "string \<Rightarrow> string \<Rightarrow> string" where
  "path_append a b =
     (if is_absolute b then b
      else if a = [] then b
      else if last a = CHR ''/'' then a @ b
      else a @ ''/'' @ b)"

text \<open>The components of a path: the pieces between separators, empty ones included.\<close>

fun components :: "string \<Rightarrow> string list" where
  "components [] = [[]]"
| "components (c # cs) =
     (if c = CHR ''/'' then [] # components cs
      else (case components cs of [] \<Rightarrow> [[c]] | s # ss \<Rightarrow> (c # s) # ss))"


section \<open>The file system\<close>

text \<open>
  The file system is a finite tree.  A file carries its modification time and
  the SHA-256 of its content, a directory its modification time and its entries
  in the order in which a directory iterator yields them.  Symbolic links are
  not modelled.  Relative paths are resolved from the working directory
  \<open>fs_cwd\<close>, a list of names from the root of the tree.
\<close>

datatype node = File int string | Dir int "(string \<times> node) list"

record filesys =
  fs_tree :: node
  fs_cwd :: "string list"

fun is_dir :: "node \<Rightarrow> bool" where
  "is_dir (Dir m es) = True"
| "is_dir (File m h) = False"

fun node_mtime :: "node \<Rightarrow> int" where
  "node_mtime (Dir m es) = m"
| "node_mtime (File m h) = m"

fun node_at :: "node \<Rightarrow> string list \<Rightarrow> node option"
  and entry_at :: "(string \<times> node) list \<Rightarrow> string \<Rightarrow> string list \<Rightarrow> node option" where
  "node_at n [] = Some n"
| "node_at (File m h) (s # ss) = None"
| "node_at (Dir m es) (s # ss) = entry_at es s ss"
| "entry_at [] s ss = None"
| "entry_at ((name, n) # es) s ss = (if name = s then node_at n ss else entry_at es s ss)"

definition dir_at :: "node \<Rightarrow> string list \<Rightarrow> bool" where
  "dir_at t loc = (case node_at t loc of Some n \<Rightarrow> is_dir n | None \<Rightarrow> False)"

text \<open>
  Path resolution, component by component, from the location \<open>loc\<close>: an empty
  component and \<^verbatim>\<open>.\<close> stay in the directory, \<^verbatim>\<open>..\<close> goes to its parent, a name
  goes to the entry of that name, which must exist.
\<close>

fun resolve :: "node \<Rightarrow> string list \<Rightarrow> string list \<Rightarrow> string list option" where
  "resolve t loc [] = Some loc"
| "resolve t loc (s # ss) =
     (if s = [] \<or> s = ''.'' then (if dir_at t loc then resolve t loc ss else None)
      else if s = ''..'' then (if dir_at t loc then resolve t (butlast loc) ss else None)
      else (case node_at t (loc @ [s]) of
              None \<Rightarrow> None
            | Some n \<Rightarrow> resolve t (loc @ [s]) ss))"

definition lookup :: "filesys \<Rightarrow> string \<Rightarrow> node option" where
  "lookup fs p =
     (if p = [] then None
      else (case resolve (fs_tree fs) (if is_absolute p then [] else fs_cwd fs) (components p) of
              None \<Rightarrow> None
            | Some loc \<Rightarrow> node_at (fs_tree fs) loc))"

definition exists_path :: "filesys \<Rightarrow> string \<Rightarrow> bool" where
  "exists_path fs p = (lookup fs p \<noteq> None)"

definition is_directory :: "filesys \<Rightarrow> string \<Rightarrow> bool" where
  "is_directory fs p = (case lookup fs p of Some n \<Rightarrow> is_dir n | None \<Rightarrow> False)"

text \<open>
  \<^verbatim>\<open>fs::recursive_directory_iterator\<close>: the entries below a directory in
  pre-order, each with its path (the directory's path with the name appended),
  its depth (0 for the entries of the directory itself) and its node.  The loop
  bodies call \<^verbatim>\<open>disable_recursion_pending()\<close> on a condition on the entry's path
  and depth alone; \<open>norec\<close> is that condition, and the iterator does not descend
  into a directory on which it holds.
\<close>

fun iterate_entries :: "(string \<Rightarrow> nat \<Rightarrow> bool) \<Rightarrow> string \<Rightarrow> nat \<Rightarrow> (string \<times> node) list
                        \<Rightarrow> (string \<times> nat \<times> node) list"
  and iterate_below :: "(string \<Rightarrow> nat \<Rightarrow> bool) \<Rightarrow> string \<Rightarrow> nat \<Rightarrow> node
                        \<Rightarrow> (string \<times> nat \<times> node) list" where
  "iterate_entries norec dir d [] = []"
| "iterate_entries norec dir d ((name, n) # es) =
     (path_append dir name, d, n) # iterate_below norec (path_append dir name) d n
       @ iterate_entries norec dir d es"
| "iterate_below norec rp d (File m h) = []"
| "iterate_below norec rp d (Dir m es) =
     (if norec rp d then [] else iterate_entries norec rp (Suc d) es)"

definition recursive_directory_iterator ::
  "filesys \<Rightarrow> string \<Rightarrow> (string \<Rightarrow> nat \<Rightarrow> bool) \<Rightarrow> (string \<times> nat \<times> node) list" where
  "recursive_directory_iterator fs p norec =
     (case lookup fs p of
        Some (Dir m es) \<Rightarrow> iterate_entries norec p 0 es
      | _ \<Rightarrow> [])"


section \<open>Path resolution (src/libs/ddb.cpp)\<close>

datatype error = FSException string | DBException string | SQLException string

text \<open>
  \<^verbatim>\<open>getPathList\<close>.  For each entry of the iteration the body first disables the
  recursion below it (when its filename is \<^verbatim>\<open>.ddb\<close>, or when \<open>maxDepth > 0\<close> and
  its depth is at least \<open>maxDepth - 1\<close>) and then appends it to the result: a
  directory only if \<open>includeDirs\<close>, anything else always.
\<close>

definition pathListEntry :: "bool \<Rightarrow> string list \<Rightarrow> string \<times> nat \<times> node \<Rightarrow> string list" where
  "pathListEntry includeDirs result ent =
     (case ent of (rp, d, n) \<Rightarrow>
        if is_dir n then (if includeDirs then result @ [rp] else result)
        else result @ [rp])"

fun getPathList_loop :: "filesys \<Rightarrow> bool \<Rightarrow> int \<Rightarrow> string list \<Rightarrow> string list
                         \<Rightarrow> error + string list" where
  "getPathList_loop fs includeDirs maxDepth [] result = Inr result"
| "getPathList_loop fs includeDirs maxDepth (p # paths) result =
     (if filename p = ''.ddb'' then getPathList_loop fs includeDirs maxDepth paths result
      else if is_directory fs p then
        getPathList_loop fs includeDirs maxDepth paths
          (foldl (pathListEntry includeDirs) result
             (recursive_directory_iterator fs p
                (\<lambda>rp d. filename rp = ''.ddb'' \<or> (maxDepth > 0 \<and> int d \<ge> maxDepth - 1))))
      else if exists_path fs p then
        getPathList_loop fs includeDirs maxDepth paths (result @ [p])
      else Inl (FSException (''Path does not exist: '' @ p)))"

definition getPathList :: "filesys \<Rightarrow> string list \<Rightarrow> bool \<Rightarrow> int \<Rightarrow> error + string list" where
  "getPathList fs paths includeDirs maxDepth = getPathList_loop fs includeDirs maxDepth paths []"

text \<open>
  \<^verbatim>\<open>getIndexPathList\<close>.  The map \<^verbatim>\<open>directories\<close> is used as a set of strings.
  While it is built it is modelled by the list of its keys, each key once
  (\<open>mark\<close> inserts a key that is not there yet).  The order in which the final
  loop \<^verbatim>\<open>for (auto it : directories) result.push_back(it.first)\<close> meets the keys
  is not specified for an \<^verbatim>\<open>unordered_map\<close>: it is the parameter \<open>bucket\<close>, a
  ranking of the keys chosen by the library, and the loop meets the keys by
  ascending rank.  Every order of the keys is the order of some ranking.

  The loop \<^verbatim>\<open>while (rp.has_parent_path()) { rp = rp.parent_path(); directories[rp.string()] = true; }\<close>
  has no bound of its own, so it is a partial function: \<open>None\<close> is a run that
  never leaves the loop.
\<close>

definition mark :: "string \<Rightarrow> string list \<Rightarrow> string list" where
  "mark k directories = (if k \<in> set directories then directories else directories @ [k])"

partial_function (option) markParents :: "string \<Rightarrow> string list \<Rightarrow> string list option" where
  "markParents rp directories =
     (if has_parent_path rp
      then markParents (parent_path rp) (mark (parent_path rp) directories)
      else Some directories)"

definition indexPathEntry :: "bool \<Rightarrow> string list \<times> string list \<Rightarrow> string \<times> nat \<times> node
                              \<Rightarrow> (string list \<times> string list) option" where
  "indexPathEntry includeDirs st ent =
     (case (st, ent) of ((result, directories), (rp, d, n)) \<Rightarrow>
        (let st1 = (if is_dir n \<and> includeDirs then (result, mark rp directories)
                    else (result @ [rp], directories))
         in if includeDirs
            then (case markParents rp (snd st1) of
                    None \<Rightarrow> None
                  | Some directories' \<Rightarrow> Some (fst st1, directories'))
            else Some st1))"

fun indexPathEntries :: "bool \<Rightarrow> string list \<times> string list \<Rightarrow> (string \<times> nat \<times> node) list
                         \<Rightarrow> (string list \<times> string list) option" where
  "indexPathEntries includeDirs st [] = Some st"
| "indexPathEntries includeDirs st (ent # ents) =
     (case indexPathEntry includeDirs st ent of
        None \<Rightarrow> None
      | Some st' \<Rightarrow> indexPathEntries includeDirs st' ents)"

fun getIndexPathList_loop :: "filesys \<Rightarrow> bool \<Rightarrow> string list \<Rightarrow> string list \<times> string list
                              \<Rightarrow> (error + string list \<times> string list) option" where
  "getIndexPathList_loop fs includeDirs [] st = Some (Inr st)"
| "getIndexPathList_loop fs includeDirs (p # paths) st =
     (if filename p = ''.ddb'' then getIndexPathList_loop fs includeDirs paths st
      else if is_directory fs p then
        (case indexPathEntries includeDirs st
                (recursive_directory_iterator fs p (\<lambda>rp d. filename rp = ''.ddb'')) of
           None \<Rightarrow> None
         | Some (result, directories) \<Rightarrow>
             getIndexPathList_loop fs includeDirs paths (result, mark p directories))
      else if exists_path fs p then
        (if includeDirs
         then (case markParents p (snd st) of
                 None \<Rightarrow> None
               | Some directories' \<Rightarrow>
                   getIndexPathList_loop fs includeDirs paths (fst st @ [p], directories'))
         else getIndexPathList_loop fs includeDirs paths (fst st @ [p], snd st))
      else Some (Inl (FSException (''Path does not exist: '' @ p))))"

text \<open>
  \<^verbatim>\<open>utils::pathsAreChildren\<close> is declared in src/utils.h and defined outside the
  sources at hand: it is the parameter \<open>pathsAreChildren\<close>.
\<close>

definition getIndexPathList :: "(string \<Rightarrow> nat) \<Rightarrow> (string \<Rightarrow> string list \<Rightarrow> bool) \<Rightarrow> filesys \<Rightarrow> string
                               \<Rightarrow> string list \<Rightarrow> bool \<Rightarrow> (error + string list) option" where
  "getIndexPathList bucket pathsAreChildren fs rootDirectory paths includeDirs =
     (if \<not> pathsAreChildren rootDirectory paths
      then Some (Inl (FSException (''Some paths are not contained within: '' @ rootDirectory
                                    @ ''. Did you run ddb init?'')))
      else (case getIndexPathList_loop fs includeDirs paths ([], []) of
              None \<Rightarrow> None
            | Some (Inl e) \<Rightarrow> Some (Inl e)
            | Some (Inr (result, directories)) \<Rightarrow>
                Some (Inr (result @ sort_key bucket directories))))"


section \<open>The index store\<close>

text \<open>
  One row of the table \<^verbatim>\<open>entries\<close>, which is also the \<^verbatim>\<open>Entry\<close> that the entry
  classifier fills in.  The type and the geometries are opaque here.
\<close>

record Entry =
  e_path :: string
  e_hash :: string
  e_type :: int
  e_meta :: string
  e_mtime :: int
  e_size :: int
  e_depth :: int
  e_point_geom :: string
  e_polygon_geom :: string

text \<open>A default-constructed \<^verbatim>\<open>Entry e;\<close>, before anything is written to it.\<close>

definition newEntry :: Entry where
  "newEntry = \<lparr>e_path = [], e_hash = [], e_type = 0, e_meta = [], e_mtime = 0, e_size = 0,
               e_depth = 0, e_point_geom = [], e_polygon_geom = []\<rparr>"

text \<open>
  Modelled from the spec: the classes \<^verbatim>\<open>Database\<close> and \<^verbatim>\<open>Statement\<close> are not among
  the sources at hand.  Following sections 3, 4.4, 5 and 6 of the specification
  the store is one table of rows with \<open>path\<close> as its primary key, behind a
  connection with transactions: \<open>committed\<close> is the persisted table,
  \<open>transaction\<close> the working copy of a transaction that has begun and has not
  been committed (\<open>None\<close> when no transaction is open).  Statements read and
  write the working copy when there is one and the persisted table otherwise.
  \<^verbatim>\<open>BEGIN TRANSACTION\<close> fails inside a transaction and \<^verbatim>\<open>COMMIT\<close> fails outside
  one; an \<^verbatim>\<open>INSERT\<close> of a path that the table holds already fails on the key.
  A working copy that is never committed is lost when the connection is closed.
\<close>

record Database =
  openFile :: string
  committed :: "Entry list"
  transaction :: "Entry list option"

definition db_rows :: "Database \<Rightarrow> Entry list" where
  "db_rows db = (case transaction db of Some rs \<Rightarrow> rs | None \<Rightarrow> committed db)"

definition db_write :: "Entry list \<Rightarrow> Database \<Rightarrow> Database" where
  "db_write rs db =
     (case transaction db of
        Some old \<Rightarrow> db\<lparr>transaction := Some rs\<rparr>
      | None \<Rightarrow> db\<lparr>committed := rs\<rparr>)"

definition exec_begin :: "Database \<Rightarrow> error + Database" where
  "exec_begin db =
     (case transaction db of
        None \<Rightarrow> Inr (db\<lparr>transaction := Some (committed db)\<rparr>)
      | Some rs \<Rightarrow> Inl (SQLException ''cannot start a transaction within a transaction''))"

definition exec_commit :: "Database \<Rightarrow> error + Database" where
  "exec_commit db =
     (case transaction db of
        Some rs \<Rightarrow> Inr (db\<lparr>committed := rs, transaction := None\<rparr>)
      | None \<Rightarrow> Inl (SQLException ''cannot commit - no transaction is active''))"

text \<open>\<^verbatim>\<open>SELECT mtime,hash FROM entries WHERE path=?\<close>, fetched once.\<close>

definition select_path :: "Database \<Rightarrow> string \<Rightarrow> Entry option" where
  "select_path db k = find (\<lambda>r. e_path r = k) (db_rows db)"

text \<open>\<^verbatim>\<open>INSERT INTO entries (path, ...) VALUES (?, ...)\<close>.\<close>

definition insert_entry :: "Entry \<Rightarrow> Database \<Rightarrow> error + Database" where
  "insert_entry e db =
     (if e_path e \<in> set (map e_path (db_rows db))
      then Inl (SQLException ''UNIQUE constraint failed: entries.path'')
      else Inr (db_write (db_rows db @ [e]) db))"

text \<open>\<^verbatim>\<open>UPDATE entries SET hash=?, ..., polygon_geom=? WHERE path=?\<close>.\<close>

definition update_entry :: "Entry \<Rightarrow> Database \<Rightarrow> Database" where
  "update_entry e db = db_write (map (\<lambda>r. if e_path r = e_path e then e else r) (db_rows db)) db"

text \<open>\<^verbatim>\<open>DELETE FROM entries WHERE path = ?\<close>, and the \<^verbatim>\<open>changes()\<close> it leaves.\<close>

definition delete_path :: "string \<Rightarrow> Database \<Rightarrow> Database" where
  "delete_path k db = db_write (filter (\<lambda>r. e_path r \<noteq> k) (db_rows db)) db"

definition delete_changes :: "string \<Rightarrow> Database \<Rightarrow> nat" where
  "delete_changes k db = length (filter (\<lambda>r. e_path r = k) (db_rows db))"

definition rootDirectory :: "Database \<Rightarrow> string" where
  "rootDirectory db = parent_path (parent_path (openFile db))"


section \<open>Change detection and reconciliation (src/libs/ddb.cpp)\<close>

text \<open>
  \<^verbatim>\<open>utils::getModifiedTime\<close> and \<^verbatim>\<open>Hash::fileSHA256\<close> are declared outside the
  sources at hand.  They read the file system; reading what is not there (or
  hashing a directory) raises an error.
\<close>

definition getModifiedTime :: "filesys \<Rightarrow> string \<Rightarrow> error + int" where
  "getModifiedTime fs p =
     (case lookup fs p of
        Some n \<Rightarrow> Inr (node_mtime n)
      | None \<Rightarrow> Inl (FSException (''Cannot stat '' @ p)))"

definition fileSHA256 :: "filesys \<Rightarrow> string \<Rightarrow> error + string" where
  "fileSHA256 fs p =
     (case lookup fs p of
        Some (File m h) \<Rightarrow> Inr h
      | _ \<Rightarrow> Inl (FSException (''Cannot open '' @ p)))"

text \<open>
  \<^verbatim>\<open>checkUpdate(e, p, dbMtime, dbHash)\<close> writes the live modification time, and
  the hash when it computes one, into \<open>e\<close> and returns whether the entry
  changed: the result is the pair of the returned boolean and \<open>e\<close>.
\<close>

definition checkUpdate :: "filesys \<Rightarrow> Entry \<Rightarrow> string \<Rightarrow> int \<Rightarrow> string \<Rightarrow> error + bool \<times> Entry" where
  "checkUpdate fs e p dbMtime dbHash =
     (let folder = is_directory fs p
      in case getModifiedTime fs p of
           Inl err \<Rightarrow> Inl err
         | Inr t \<Rightarrow>
             (let e1 = e\<lparr>e_mtime := t\<rparr>
              in if e_mtime e1 \<noteq> dbMtime
                 then (if folder then Inr (True, e1)
                       else (case fileSHA256 fs p of
                               Inl err \<Rightarrow> Inl err
                             | Inr h \<Rightarrow>
                                 (let e2 = e1\<lparr>e_hash := h\<rparr>
                                  in if dbHash \<noteq> e_hash e2 then Inr (True, e2)
                                     else Inr (False, e2))))
                 else Inr (False, e1)))"

text \<open>
  What a call works on: the connection and the lines written to standard
  output.  A call ends normally (\<open>Done\<close>) or by an exception (\<open>Raised\<close>); both
  carry the state in which the call leaves the connection and the output.
\<close>

record world =
  db :: Database
  out :: "string list"

datatype outcome = Done world | Raised error world

definition line :: "string \<Rightarrow> string \<Rightarrow> string" where
  "line op p = op @ [CHR 0x09] @ p"

definition doUpdate :: "Entry \<Rightarrow> world \<Rightarrow> world" where
  "doUpdate e w = w\<lparr>db := update_entry e (db w), out := out w @ [line ''U'' (e_path e)]\<rparr>"

text \<open>
  The collaborators that are declared outside the sources at hand are
  parameters: \<^verbatim>\<open>utils::pathsAreChildren\<close>; the entry classifier \<^verbatim>\<open>parseEntry\<close>
  (path, root directory and the entry so far to the filled entry, or an
  error); \<open>relativePath p directory\<close>, the standard library's
  \<^verbatim>\<open>weakly_canonical(absolute(p).lexically_relative(absolute(directory))).generic_string()\<close>;
  the ranking \<open>bucket\<close> by which an \<^verbatim>\<open>unordered_map\<close> is iterated; and
  \<open>storeEffect\<close>, what the database library does to the file system during a
  call, given the connection before and after the call.  The store is the file
  \<open>openFile\<close>, which \<^verbatim>\<open>open\<close> places at \<^verbatim>\<open><root>/.ddb/dbase.sqlite\<close>, inside the
  tracked tree: writing it changes what a later call reads from the file
  system.
\<close>

record collaborators =
  pathsAreChildren :: "string \<Rightarrow> string list \<Rightarrow> bool"
  parseEntry :: "string \<Rightarrow> string \<Rightarrow> Entry \<Rightarrow> error + Entry"
  relativePath :: "string \<Rightarrow> string \<Rightarrow> string"
  bucket :: "string \<Rightarrow> nat"
  storeEffect :: "Database \<Rightarrow> Database \<Rightarrow> filesys \<Rightarrow> filesys"

text \<open>The state in which a call ends, normally or not.\<close>

fun final :: "outcome \<Rightarrow> world" where
  "final (Done w) = w"
| "final (Raised err w) = w"

text \<open>The body of the loop of \<^verbatim>\<open>syncIndex\<close>, for one fetched row.\<close>

definition syncRow :: "collaborators \<Rightarrow> filesys \<Rightarrow> string \<Rightarrow> Entry \<Rightarrow> world \<Rightarrow> outcome" where
  "syncRow ext fs directory row w =
     (let relPath = e_path row;
          p = path_append directory relPath
      in if exists_path fs p
         then (case checkUpdate fs newEntry p (e_mtime row) (e_hash row) of
                 Inl err \<Rightarrow> Raised err w
               | Inr (changed, e) \<Rightarrow>
                   if changed
                   then (case parseEntry ext p directory e of
                           Inl err \<Rightarrow> Raised err w
                         | Inr e' \<Rightarrow> Done (doUpdate e' w))
                   else Done w)
         else Done (w\<lparr>db := delete_path relPath (db w),
                       out := out w @ [line ''D'' relPath]\<rparr>))"

fun syncRows :: "collaborators \<Rightarrow> filesys \<Rightarrow> string \<Rightarrow> Entry list \<Rightarrow> world \<Rightarrow> outcome" where
  "syncRows ext fs directory [] w = Done w"
| "syncRows ext fs directory (row # rows) w =
     (case syncRow ext fs directory row w of
        Raised err w' \<Rightarrow> Raised err w'
      | Done w' \<Rightarrow> syncRows ext fs directory rows w')"

text \<open>
  \<^verbatim>\<open>syncIndex\<close>, as far as the connection and the output go: the rows that
  \<^verbatim>\<open>SELECT path,mtime,hash FROM entries\<close> yields are those of the table when the
  transaction begins, and the loop reads the file system as it is when the call
  begins.
\<close>

definition syncTransaction :: "collaborators \<Rightarrow> filesys \<Rightarrow> world \<Rightarrow> outcome" where
  "syncTransaction ext fs w =
     (let directory = rootDirectory (db w)
      in case exec_begin (db w) of
           Inl err \<Rightarrow> Raised err w
         | Inr db1 \<Rightarrow>
             (case syncRows ext fs directory (db_rows db1) (w\<lparr>db := db1\<rparr>) of
                Raised err w' \<Rightarrow> Raised err w'
              | Done w' \<Rightarrow>
                  (case exec_commit (db w') of
                     Inl err \<Rightarrow> Raised err w'
                   | Inr db2 \<Rightarrow> Done (w'\<lparr>db := db2\<rparr>))))"

text \<open>
  The file system after a call that began with the connection \<open>db w\<close> and ended
  with the outcome \<open>r\<close>: what the database library made of it.  \<^verbatim>\<open>syncIndex\<close>
  gives the outcome of the call and the file system it leaves, which is the one
  that the next call reads.  (\<open>addToIndex\<close> and \<open>removeFromIndex\<close> below leave
  the file system \<open>after_call\<close> of their outcome in the same way.)
\<close>

definition after_call :: "collaborators \<Rightarrow> world \<Rightarrow> outcome \<Rightarrow> filesys \<Rightarrow> filesys" where
  "after_call ext w r fs = storeEffect ext (db w) (db (final r)) fs"

definition syncIndex :: "collaborators \<Rightarrow> filesys \<Rightarrow> world \<Rightarrow> outcome \<times> filesys" where
  "syncIndex ext fs w =
     (let r = syncTransaction ext fs w in (r, after_call ext w r fs))"

text \<open>The body of the loop of \<^verbatim>\<open>addToIndex\<close>, for one path of the path list.\<close>

definition addPath :: "collaborators \<Rightarrow> filesys \<Rightarrow> string \<Rightarrow> string \<Rightarrow> world \<Rightarrow> outcome" where
  "addPath ext fs directory p w =
     (let relPath = relativePath ext p directory
      in case select_path (db w) relPath of
           Some row \<Rightarrow>
             (case checkUpdate fs newEntry p (e_mtime row) (e_hash row) of
                Inl err \<Rightarrow> Raised err w
              | Inr (update, e) \<Rightarrow>
                  if update
                  then (case parseEntry ext p directory e of
                          Inl err \<Rightarrow> Raised err w
                        | Inr e' \<Rightarrow> Done (doUpdate e' w))
                  else Done w)
         | None \<Rightarrow>
             (case parseEntry ext p directory newEntry of
                Inl err \<Rightarrow> Raised err w
              | Inr e' \<Rightarrow>
                  (case insert_entry e' (db w) of
                     Inl err \<Rightarrow> Raised err w
                   | Inr db' \<Rightarrow> Done (w\<lparr>db := db', out := out w @ [line ''A'' (e_path e')]\<rparr>))))"

fun addPaths :: "collaborators \<Rightarrow> filesys \<Rightarrow> string \<Rightarrow> string list \<Rightarrow> world \<Rightarrow> outcome" where
  "addPaths ext fs directory [] w = Done w"
| "addPaths ext fs directory (p # pathList) w =
     (case addPath ext fs directory p w of
        Raised err w' \<Rightarrow> Raised err w'
      | Done w' \<Rightarrow> addPaths ext fs directory pathList w')"

text \<open>
  \<^verbatim>\<open>addToIndex\<close> and \<^verbatim>\<open>removeFromIndex\<close> resolve the paths first; their result is
  \<open>None\<close> when \<open>getIndexPathList\<close> does not return.
\<close>

definition addToIndex :: "collaborators \<Rightarrow> filesys \<Rightarrow> string list \<Rightarrow> world \<Rightarrow> outcome option" where
  "addToIndex ext fs paths w =
     (let directory = rootDirectory (db w)
      in case getIndexPathList (bucket ext) (pathsAreChildren ext) fs directory paths True of
           None \<Rightarrow> None
         | Some (Inl err) \<Rightarrow> Some (Raised err w)
         | Some (Inr pathList) \<Rightarrow>
             Some (case exec_begin (db w) of
                     Inl err \<Rightarrow> Raised err w
                   | Inr db1 \<Rightarrow>
                       (case addPaths ext fs directory pathList (w\<lparr>db := db1\<rparr>) of
                          Raised err w' \<Rightarrow> Raised err w'
                        | Done w' \<Rightarrow>
                            (case exec_commit (db w') of
                               Inl err \<Rightarrow> Raised err w'
                             | Inr db2 \<Rightarrow> Done (w'\<lparr>db := db2\<rparr>)))))"

definition removePath :: "collaborators \<Rightarrow> string \<Rightarrow> string \<Rightarrow> world \<Rightarrow> world" where
  "removePath ext directory p w =
     (let relPath = relativePath ext p directory;
          changes = delete_changes relPath (db w);
          w1 = w\<lparr>db := delete_path relPath (db w)\<rparr>
      in if changes \<ge> 1 then w1\<lparr>out := out w1 @ [line ''D'' relPath]\<rparr> else w1)"

definition removeFromIndex :: "collaborators \<Rightarrow> filesys \<Rightarrow> string list \<Rightarrow> world \<Rightarrow> outcome option" where
  "removeFromIndex ext fs paths w =
     (let directory = rootDirectory (db w)
      in case getIndexPathList (bucket ext) (pathsAreChildren ext) fs directory paths False of
           None \<Rightarrow> None
         | Some (Inl err) \<Rightarrow> Some (Raised err w)
         | Some (Inr pathList) \<Rightarrow>
             Some (case exec_begin (db w) of
                     Inl err \<Rightarrow> Raised err w
                   | Inr db1 \<Rightarrow>
                       (let w' = foldl (\<lambda>w p. removePath ext directory p w) (w\<lparr>db := db1\<rparr>) pathList
                        in case exec_commit (db w') of
                             Inl err \<Rightarrow> Raised err w'
                           | Inr db2 \<Rightarrow> Done (w'\<lparr>db := db2\<rparr>))))"


section \<open>Notions used in the statements\<close>

text \<open>
  A row is up to date when its file exists and \<open>checkUpdate\<close> reports no change
  for it.
\<close>

definition upToDate :: "filesys \<Rightarrow> string \<Rightarrow> Entry \<Rightarrow> bool" where
  "upToDate fs directory row =
     (let p = path_append directory (e_path row)
      in exists_path fs p \<and>
         (case checkUpdate fs newEntry p (e_mtime row) (e_hash row) of
            Inl err \<Rightarrow> False
          | Inr (changed, e) \<Rightarrow> \<not> changed))"



text \<open>
  The depth limit scenario of the specification, on a file system whose working
  directory holds \<^verbatim>\<open>root/a/b/c.txt\<close>: as the specification words it, and as the
  code behaves.
\<close>

definition depthLimit_claimed :: "filesys \<Rightarrow> bool \<Rightarrow> bool" where
  "depthLimit_claimed fs includeDirs =
     (case getPathList fs [''root''] includeDirs 1 of
        Inl err \<Rightarrow> False
      | Inr r \<Rightarrow> ''root/a'' \<in> set r \<and> (''root/a/b'' \<in> set r) = includeDirs
                  \<and> ''root/a/b/c.txt'' \<notin> set r)"

definition depthLimit_amended :: "filesys \<Rightarrow> bool \<Rightarrow> bool" where
  "depthLimit_amended fs includeDirs =
     (case getPathList fs [''root''] includeDirs 1 of
        Inl err \<Rightarrow> False
      | Inr r \<Rightarrow> (''root/a'' \<in> set r) = includeDirs \<and> ''root/a/b'' \<notin> set r
                  \<and> ''root/a/b/c.txt'' \<notin> set r)"


section \<open>The specification's wording of the geolocation conversion\<close>

text \<open>
  The decimal value as the specification words it, to be compared with
  \<open>geoToDecimal\<close>: a sign taken from the hemisphere reference, compared without
  regard to case, and three rationals of which one with a zero denominator
  counts as 0.
\<close>

definition caseInsensitiveEqual :: "string \<Rightarrow> string \<Rightarrow> bool" where
  "caseInsensitiveEqual a b = (toUpper a = toUpper b)"

definition spec_sign :: "string option \<Rightarrow> rat" where
  "spec_sign ref =
     (case ref of
        None \<Rightarrow> 1
      | Some r \<Rightarrow> if caseInsensitiveEqual r ''S'' \<or> caseInsensitiveEqual r ''W'' then - 1 else 1)"

definition spec_rational :: "int \<times> int \<Rightarrow> rat" where
  "spec_rational r = (case r of (n, d) \<Rightarrow> if d = 0 then 0 else of_int n / of_int d)"

definition spec_decimal :: "int \<times> int \<Rightarrow> int \<times> int \<Rightarrow> int \<times> int \<Rightarrow> string option \<Rightarrow> rat" where
  "spec_decimal deg mn sec ref =
     spec_sign ref * (spec_rational deg + spec_rational mn / 60 + spec_rational sec / 3600)"


section \<open>Example metadata values\<close>

text \<open>
  Tag values for the concrete inputs below: a text tag, an integer tag, and a
  tag of three rationals (degrees, minutes, seconds).
\<close>

definition textTag :: "string \<Rightarrow> exifValue" where
  "textTag s = \<lparr>toLong = 0, toFloat = Fin 0, toString = s, toRational = (\<lambda>n. (0, 1))\<rparr>"

definition numberTag :: "int \<Rightarrow> exifValue" where
  "numberTag n = \<lparr>toLong = n, toFloat = Fin (of_int n), toString = [], toRational = (\<lambda>i. (n, 1))\<rparr>"

definition dmsTag :: "int \<times> int \<Rightarrow> int \<times> int \<Rightarrow> int \<times> int \<Rightarrow> exifValue" where
  "dmsTag d m s = \<lparr>toLong = 0, toFloat = Fin 0, toString = [],
     toRational = (\<lambda>i. if i = 0 then d else if i = 1 then m else s)\<rparr>"


section \<open>Example file systems, classifiers and index states\<close>

text \<open>
  \<open>fs_abc\<close> holds \<^verbatim>\<open>/root/a/b/c.txt\<close>.  \<open>fs_proj\<close> holds the tracked root \<^verbatim>\<open>/proj\<close>
  with its private directory \<^verbatim>\<open>.ddb\<close> and one image; its working directory is
  \<^verbatim>\<open>/\<close>, that of \<open>fs_in_proj\<close> is \<^verbatim>\<open>/proj\<close>.
\<close>

definition fs_abc :: filesys where
  "fs_abc =
     \<lparr>fs_tree = Dir 0 [(''root'', Dir 10 [(''a'', Dir 20 [(''b'', Dir 30 [(''c.txt'', File 40 ''h1'')])])])],
      fs_cwd = []\<rparr>"

definition fs_proj :: filesys where
  "fs_proj =
     \<lparr>fs_tree = Dir 0 [(''proj'', Dir 10 [(''.ddb'', Dir 20 [(''dbase.sqlite'', File 30 ''h0'')]),
                                         (''img.jpg'', File 40 ''h1'')])],
      fs_cwd = []\<rparr>"

definition fs_in_proj :: filesys where
  "fs_in_proj = fs_proj\<lparr>fs_cwd := [''proj'']\<rparr>"

definition fs_more :: filesys where
  "fs_more =
     \<lparr>fs_tree = Dir 0 [(''proj'', Dir 50 [(''.ddb'', Dir 20 [(''dbase.sqlite'', File 30 ''h0'')]),
                                         (''img.jpg'', File 40 ''h1''),
                                         (''new.jpg'', File 50 ''h3'')])],
      fs_cwd = []\<rparr>"

definition fs_written :: filesys where
  "fs_written =
     \<lparr>fs_tree = Dir 0 [(''proj'', Dir 50 [(''.ddb'', Dir 100 [(''dbase.sqlite'', File 100 ''h0'')]),
                                         (''img.jpg'', File 40 ''h1''),
                                         (''new.jpg'', File 50 ''h3'')])],
      fs_cwd = []\<rparr>"

text \<open>
  A store effect for the examples, that of a database file with a rollback
  journal: a call that changes the persisted table writes the store file and
  creates and deletes the journal next to it, which sets the modification time
  of the store file and of its directory to the time \<open>t\<close> of the write.  A call
  that changes nothing writes nothing.  (\<open>fs_more\<close> is \<open>fs_proj\<close> after a second
  image was put into the root at time 50; \<open>fs_written\<close> is \<open>fs_more\<close> after such a
  write at time 100.)
\<close>

fun set_mtime :: "int \<Rightarrow> node \<Rightarrow> node" where
  "set_mtime t (File m h) = File t h"
| "set_mtime t (Dir m es) = Dir t es"

fun touch_at :: "int \<Rightarrow> string list \<Rightarrow> node \<Rightarrow> node"
  and touch_entry :: "int \<Rightarrow> string \<Rightarrow> string list \<Rightarrow> (string \<times> node) list \<Rightarrow> (string \<times> node) list" where
  "touch_at t [] n = set_mtime t n"
| "touch_at t (s # ss) (File m h) = File m h"
| "touch_at t (s # ss) (Dir m es) = Dir m (touch_entry t s ss es)"
| "touch_entry t s ss [] = []"
| "touch_entry t s ss ((name, n) # es) =
     (if name = s then (name, touch_at t ss n) # es else (name, n) # touch_entry t s ss es)"

definition touch :: "int \<Rightarrow> string \<Rightarrow> filesys \<Rightarrow> filesys" where
  "touch t p fs =
     (case resolve (fs_tree fs) (if is_absolute p then [] else fs_cwd fs) (components p) of
        None \<Rightarrow> fs
      | Some loc \<Rightarrow> fs\<lparr>fs_tree := touch_at t loc (fs_tree fs)\<rparr>)"

definition journalWrite :: "int \<Rightarrow> Database \<Rightarrow> Database \<Rightarrow> filesys \<Rightarrow> filesys" where
  "journalWrite t before after fs =
     (if committed after = committed before then fs
      else touch t (parent_path (openFile after)) (touch t (openFile after) fs))"

text \<open>
  Classifiers for the examples.  \<open>exampleClassifier\<close> fills in the path relative
  to the root, the live modification time and the hash; \<open>failingOn bad\<close> does
  the same but raises an error on the path \<open>bad\<close>; \<open>recordingClassifier\<close> stores
  the path it is given as it is, so that the rows show which paths were
  classified.  Their ranking of the keys is constant, so the keys of a map come
  out in the order of their insertion.
\<close>

definition relativeTo :: "string \<Rightarrow> string \<Rightarrow> string" where
  "relativeTo p directory =
     (let a = (if is_absolute p then p else ''/'' @ p)
      in if a = directory then ''.'' else drop (length directory + 1) a)"

definition exampleClassifier :: "filesys \<Rightarrow> collaborators" where
  "exampleClassifier fs =
     \<lparr>pathsAreChildren = (\<lambda>rootDirectory paths. True),
      parseEntry = (\<lambda>p directory e.
         case getModifiedTime fs p of
           Inl err \<Rightarrow> Inl err
         | Inr t \<Rightarrow> Inr (e\<lparr>e_path := relativeTo p directory, e_mtime := t,
                            e_hash := (case fileSHA256 fs p of Inr h \<Rightarrow> h | Inl err \<Rightarrow> [])\<rparr>)),
      relativePath = relativeTo,
      bucket = (\<lambda>k. 0),
      storeEffect = journalWrite 100\<rparr>"

definition failingOn :: "string \<Rightarrow> filesys \<Rightarrow> collaborators" where
  "failingOn bad fs =
     \<lparr>pathsAreChildren = (\<lambda>rootDirectory paths. True),
      parseEntry = (\<lambda>p directory e.
         if p = bad then Inl (FSException (''Cannot read '' @ p))
         else parseEntry (exampleClassifier fs) p directory e),
      relativePath = relativeTo,
      bucket = (\<lambda>k. 0),
      storeEffect = journalWrite 100\<rparr>"

definition recordingClassifier :: collaborators where
  "recordingClassifier =
     \<lparr>pathsAreChildren = (\<lambda>rootDirectory paths. True),
      parseEntry = (\<lambda>p directory e. Inr (e\<lparr>e_path := p\<rparr>)),
      relativePath = (\<lambda>p directory. p),
      bucket = (\<lambda>k. 0),
      storeEffect = journalWrite 100\<rparr>"

definition row_gone :: Entry where
  "row_gone = newEntry\<lparr>e_path := ''gone.jpg'', e_hash := ''h9'', e_mtime := 5\<rparr>"

definition row_stale :: Entry where
  "row_stale = newEntry\<lparr>e_path := ''img.jpg'', e_hash := ''h0'', e_mtime := 7\<rparr>"

definition row_touched :: Entry where
  "row_touched = newEntry\<lparr>e_path := ''img.jpg'', e_hash := ''h1'', e_mtime := 7\<rparr>"

definition row_fresh :: Entry where
  "row_fresh = newEntry\<lparr>e_path := ''img.jpg'', e_hash := ''h1'', e_mtime := 40\<rparr>"

definition row_ddb :: Entry where
  "row_ddb = newEntry\<lparr>e_path := ''.ddb'', e_mtime := 20\<rparr>"

definition row_root :: Entry where
  "row_root = newEntry\<lparr>e_path := ''.'', e_mtime := 10\<rparr>"

text \<open>A connection to the index of \<^verbatim>\<open>/proj\<close> holding the rows \<open>rs\<close>, and no output yet.\<close>

definition world_of :: "Entry list \<Rightarrow> world" where
  "world_of rs =
     \<lparr>db = \<lparr>openFile = ''/proj/.ddb/dbase.sqlite'', committed = rs, transaction = None\<rparr>,
      out = []\<rparr>"


section \<open>Sensor identity: the loop that strips the make\<close>

lemma str_find_bound: "str_find sub s = Some pos \<Longrightarrow> pos + length sub \<le> length s"
proof (induction s arbitrary: pos)
  case Nil
  then show ?case by (simp split: if_splits)
next
  case (Cons c cs)
  show ?case
  proof (cases "take (length sub) (c # cs) = sub")
    case True
    then have "length sub = length (take (length sub) (c # cs))" by simp
    then have "length sub \<le> length (c # cs)" by (simp del: take_Suc_Cons)
    with True Cons.prems show ?thesis by simp
  next
    case False
    with Cons.prems obtain q where "str_find sub cs = Some q" "pos = Suc q" by auto
    with Cons.IH show ?thesis by fastforce
  qed
qed

text \<open>With a make of at least one character every pass shortens the model, so the loop ends.\<close>

lemma eraseMake_returns: "mk \<noteq> [] \<Longrightarrow> \<exists>y. eraseMake mk model = Some y"
proof (induction "length model" arbitrary: model rule: less_induct)
  case less
  show ?case
  proof (cases "str_find mk model")
    case None
    then show ?thesis by (subst eraseMake.simps) simp
  next
    case (Some pos)
    from str_find_bound[OF Some] less.prems
    have "length (str_erase model pos (length mk)) < length model"
      by (cases mk) (auto simp: str_erase_def)
    from less.hyps[OF this less.prems] Some show ?thesis
      by (subst eraseMake.simps) simp
  qed
qed

text \<open>
  With the empty make, \<^verbatim>\<open>find\<close> answers 0 and \<^verbatim>\<open>erase(0, 0)\<close> removes nothing:
  the loop never ends.
\<close>

lemma eraseMake_Some_make: "eraseMake mk model = Some y \<Longrightarrow> mk \<noteq> []"
proof (induction rule: eraseMake.raw_induct[rotated 1, consumes 1])
  case (1 eraseMake mk model y)
  show ?case
  proof
    assume e: "mk = []"
    then have "str_find mk model = Some 0" by (cases model) auto
    with 1(2) e have "eraseMake [] model = Some y" by (simp add: str_erase_def)
    from 1(1)[OF this] show False by simp
  qed
qed

lemma eraseMake_empty: "eraseMake [] model = None"
  using eraseMake_Some_make[of "[]" model] by (cases "eraseMake [] model") auto

lemma extractSensor_returns_iff:
  "(\<exists>s. extractSensor exifData = Some s) \<longleftrightarrow> extractMake exifData \<noteq> []"
proof (cases "extractMake exifData = []")
  case True
  then show ?thesis by (simp add: extractSensor_def Let_def toLower_def eraseMake_empty)
next
  case False
  then have ne: "toLower (extractMake exifData) \<noteq> []" by (simp add: toLower_def)
  from eraseMake_returns[OF ne]
  obtain y where "eraseMake (toLower (extractMake exifData)) (toLower (extractModel exifData)) = Some y"
    by blast
  with False show ?thesis by (simp add: extractSensor_def Let_def)
qed

lemma extractSensor_canon:
  "extractSensor [''Exif.Image.Make'' \<mapsto> textTag ''Canon'',
                  ''Exif.Image.Model'' \<mapsto> textTag ''Canon EOS 5D''] = Some ''canon eos 5d''"
  by (simp add: extractSensor_def Let_def extractMake_def extractModel_def textTag_def
      toLower_def tolower_def upper_letters_def lower_letters_def eraseMake.simps str_erase_def
      trim_def ltrim_def rtrim_def isspace_def)

text \<open>
  Claim C10 says that the sensor identity extraction terminates on every input,
  the make tag present with the empty string as its value included.  On that
  input it does not: with the tags \<^verbatim>\<open>Exif.Image.Make = ""\<close> and
  \<^verbatim>\<open>Exif.Image.Model = "FC300S"\<close> the make differs from \<^verbatim>\<open>"unknown"\<close>, the loop is
  entered, and \<open>extractSensor\<close> has no result.  (By \<open>extractSensor_returns_iff\<close>
  the empty make is the only input on which it does not return.)
\<close>

theorem extractSensor_empty_make_no_result:
  "extractSensor [''Exif.Image.Make'' \<mapsto> textTag [],
                  ''Exif.Image.Model'' \<mapsto> textTag ''FC300S''] = None"
  by (simp add: extractSensor_def Let_def extractMake_def textTag_def toLower_def eraseMake_empty)


section \<open>Sensor width\<close>

lemma extractImageSize_missing:
  "exifData ''Exif.Photo.PixelXDimension'' = None \<or> exifData ''Exif.Photo.PixelYDimension'' = None
   \<Longrightarrow> extractImageSize exifData = (- 1, - 1)"
  by (auto simp: extractImageSize_def split: option.splits)

lemma extractSensorWidth_formula:
  assumes "findKey exifData [''Exif.Photo.FocalPlaneResolutionUnit'',
                             ''Exif.Image.FocalPlaneResolutionUnit''] = Some fUnit"
      and "findKey exifData [''Exif.Photo.FocalPlaneXResolution'',
                             ''Exif.Image.FocalPlaneXResolution''] = Some fXRes"
      and "toLong fUnit = 2 \<or> toLong fUnit = 3"
  shows "extractSensorWidth exifData =
           fmul (fmul (Fin (of_int (fst (extractImageSize exifData))))
                      (fdiv (Fin 1) (toFloat fXRes)))
                (if toLong fUnit = 2 then Fin 25.4 else Fin 10)"
  using assms by (auto simp: extractSensorWidth_def getMmPerUnit_def f_eq0_def Let_def)

lemma extractSensorWidth_zero:
  assumes "findKey exifData [''Exif.Photo.FocalPlaneResolutionUnit'',
                             ''Exif.Image.FocalPlaneResolutionUnit''] = None
         \<or> findKey exifData [''Exif.Photo.FocalPlaneXResolution'',
                               ''Exif.Image.FocalPlaneXResolution''] = None
         \<or> (\<exists>fUnit. findKey exifData [''Exif.Photo.FocalPlaneResolutionUnit'',
                                        ''Exif.Image.FocalPlaneResolutionUnit''] = Some fUnit
               \<and> toLong fUnit \<noteq> 2 \<and> toLong fUnit \<noteq> 3)"
  shows "extractSensorWidth exifData = Fin 0"
  using assms
  by (auto simp: extractSensorWidth_def getMmPerUnit_def f_eq0_def Let_def split: option.splits)

text \<open>
  Claim C7 says that sensor width extraction returns 0 when a required input is
  missing, the image width included.  The two resolution tags are checked, the
  image width is not: without the pixel dimension tags \<open>extractImageSize\<close>
  answers \<open>(-1, -1)\<close> and the width \<open>-1\<close> goes into the product.  With resolution
  unit 2 and an X resolution of 1000 pixels per inch the result is
  \<open>-1 * (1 / 1000) * 25.4 = -0.0254\<close>, not 0.
\<close>

theorem extractSensorWidth_without_image_width:
  "extractSensorWidth [''Exif.Photo.FocalPlaneResolutionUnit'' \<mapsto> numberTag 2,
                       ''Exif.Photo.FocalPlaneXResolution'' \<mapsto> numberTag 1000]
   = Fin (- 127 / 5000)"
  by (simp add: extractSensorWidth_def extractImageSize_def numberTag_def getMmPerUnit_def
      f_eq0_def fdiv_def fmul_def Let_def)


section \<open>Focal length\<close>

lemma computeFocal_direct:
  assumes "findKey exifData [''Exif.Photo.FocalLengthIn35mmFilm'',
                             ''Exif.Image.FocalLengthIn35mmFilm''] = Some v"
      and "f_gt0 (toFloat v)"
  shows "computeFocal sensorData exifData
         = Some \<lparr>f35 = toFloat v, ratio = fdiv (toFloat v) (Fin 36)\<rparr>"
  using assms by (simp add: computeFocal_def Let_def)

lemma computeFocal_example_35mm:
  "computeFocal Map.empty [''Exif.Photo.FocalLengthIn35mmFilm'' \<mapsto> numberTag 50]
   = Some \<lparr>f35 = Fin 50, ratio = Fin (50 / 36)\<rparr>"
  by (simp add: computeFocal_def Let_def numberTag_def f_gt0_def fdiv_def)

lemma computeFocal_example_table:
  "computeFocal [''sony a6000'' \<mapsto> Fin 23.5]
     [''Exif.Image.Make'' \<mapsto> textTag ''SONY'', ''Exif.Image.Model'' \<mapsto> textTag ''A6000'',
      ''Exif.Photo.FocalLength'' \<mapsto> numberTag 24]
   = Some \<lparr>f35 = Fin (36 * (24 / 23.5)), ratio = Fin (24 / 23.5)\<rparr>"
  by (simp add: computeFocal_def focalFromSensor_def Let_def numberTag_def f_gt0_def f_eq0_def
      fdiv_def fmul_def extractSensorWidth_def extractSensor_def extractMake_def
      extractModel_def textTag_def toLower_def tolower_def upper_letters_def lower_letters_def
      eraseMake.simps str_erase_def trim_def ltrim_def rtrim_def isspace_def)

text \<open>With a make of at least one character \<open>computeFocal\<close> returns.\<close>

lemma focalFromSensor_returns:
  assumes "extractSensor exifData = Some s"
  shows "\<exists>f. focalFromSensor sensorData exifData focal = Some f"
proof (cases focal)
  case None
  with assms show ?thesis by (simp add: focalFromSensor_def Let_def)
next
  case (Some fl)
  with assms show ?thesis by (simp add: focalFromSensor_def Let_def)
qed

lemma computeFocal_returns:
  assumes "extractMake exifData \<noteq> []"
  shows "\<exists>f. computeFocal sensorData exifData = Some f"
proof -
  from assms obtain s where s: "extractSensor exifData = Some s"
    using extractSensor_returns_iff[of exifData] by (elim iffE) blast
  let ?focal = "findKey exifData [''Exif.Photo.FocalLength'', ''Exif.Image.FocalLength'']"
  from focalFromSensor_returns[OF s, of sensorData ?focal]
  obtain f where f: "focalFromSensor sensorData exifData ?focal = Some f" by (elim exE)
  show ?thesis
  proof (cases "findKey exifData [''Exif.Photo.FocalLengthIn35mmFilm'', ''Exif.Image.FocalLengthIn35mmFilm'']")
    case None
    with f show ?thesis by (simp add: computeFocal_def Let_def)
  next
    case (Some v)
    with f show ?thesis by (simp add: computeFocal_def Let_def)
  qed
qed

text \<open>
  Claim C8 says that when neither path yields data both outputs are 0.  The
  branch without a positive 35mm tag calls \<open>extractSensor\<close> whatever the sensor
  width is, so it inherits the loop of C10: with \<^verbatim>\<open>Exif.Image.Make = ""\<close> as the
  only tag (no 35mm tag, no focal length, no resolution tags, an empty sensor
  table) neither path yields data, and \<open>computeFocal\<close> has no result at all
  instead of two zeros.
\<close>

theorem computeFocal_empty_make_no_result:
  "computeFocal Map.empty [''Exif.Image.Make'' \<mapsto> textTag []] = None"
  by (simp add: computeFocal_def focalFromSensor_def Let_def extractSensor_def extractMake_def
      textTag_def toLower_def eraseMake_empty)


section \<open>Geolocation\<close>

lemma toUpper_letters:
  "toUpper ''S'' = ''S''" "toUpper ''W'' = ''W''" "toUpper ''N'' = ''N''"
  by (simp_all add: toUpper_def toupper_def upper_letters_def lower_letters_def)

lemma toupper_eq_S: "toupper c = CHR ''S'' \<longleftrightarrow> c = CHR ''S'' \<or> c = CHR ''s''"
  by (auto simp: toupper_def upper_letters_def lower_letters_def split: option.splits if_splits)

lemma toupper_eq_W: "toupper c = CHR ''W'' \<longleftrightarrow> c = CHR ''W'' \<or> c = CHR ''w''"
  by (auto simp: toupper_def upper_letters_def lower_letters_def split: option.splits if_splits)

lemma toUpper_eq_single: "toUpper r = [c] \<longleftrightarrow> (\<exists>x. r = [x] \<and> toupper x = c)"
  by (cases r) (auto simp: toUpper_def)

lemma spec_sign_negative:
  "spec_sign ref = - 1 \<longleftrightarrow> ref \<in> {Some ''S'', Some ''s'', Some ''W'', Some ''w''}"
proof (cases ref)
  case None
  then show ?thesis by (simp add: spec_sign_def)
next
  case (Some r)
  have "caseInsensitiveEqual r ''S'' \<longleftrightarrow> r = ''S'' \<or> r = ''s''"
    unfolding caseInsensitiveEqual_def toUpper_letters toUpper_eq_single toupper_eq_S by auto
  moreover have "caseInsensitiveEqual r ''W'' \<longleftrightarrow> r = ''W'' \<or> r = ''w''"
    unfolding caseInsensitiveEqual_def toUpper_letters toUpper_eq_single toupper_eq_W by auto
  ultimately show ?thesis using Some by (auto simp: spec_sign_def)
qed

text \<open>
  Claim C9: for every tag of three rationals and every hemisphere reference
  (present or absent) \<open>geoToDecimal\<close> returns sign * (deg + min/60 + sec/3600),
  the sign being -1 exactly when the reference equals "S" or "W" without regard
  to case (that is, when it is one of S, s, W, w) and +1 otherwise, the absent
  reference included; a rational with denominator 0 evaluates to 0; and the
  triple (45, 30, 0) gives 45.5 with the reference "N" and -45.5 with "S".
\<close>

theorem geoToDecimal_decimal:
  "geoToDecimal (Some g) ref
     = spec_decimal (toRational g 0) (toRational g 1) (toRational g 2) (map_option toString ref)
   \<and> (spec_sign r = - 1) = (r \<in> {Some ''S'', Some ''s'', Some ''W'', Some ''w''})
   \<and> (spec_sign r = - 1 \<or> spec_sign r = 1)
   \<and> spec_sign None = 1
   \<and> evalFrac (n, 0) = 0
   \<and> geoToDecimal (Some (dmsTag (45, 1) (30, 1) (0, 1))) (Some (textTag ''N'')) = 45.5
   \<and> geoToDecimal (Some (dmsTag (45, 1) (30, 1) (0, 1))) (Some (textTag ''S'')) = - 45.5"
proof -
  have 1: "geoToDecimal (Some g) ref
     = spec_decimal (toRational g 0) (toRational g 1) (toRational g 2) (map_option toString ref)"
    by (cases ref)
       (simp_all add: geoToDecimal_def spec_decimal_def spec_sign_def spec_rational_def
          evalFrac_def caseInsensitiveEqual_def toUpper_letters Let_def split: prod.splits)
  have 2: "(spec_sign r = - 1) = (r \<in> {Some ''S'', Some ''s'', Some ''W'', Some ''w''})"
    by (rule spec_sign_negative)
  have 3: "spec_sign r = - 1 \<or> spec_sign r = 1"
    by (simp add: spec_sign_def split: option.splits)
  have 4: "spec_sign None = 1" by (simp add: spec_sign_def)
  have 5: "evalFrac (n, 0) = 0" by (simp add: evalFrac_def)
  have 6: "geoToDecimal (Some (dmsTag (45, 1) (30, 1) (0, 1))) (Some (textTag ''N'')) = 45.5"
    by (simp add: geoToDecimal_def dmsTag_def textTag_def toUpper_letters evalFrac_def Let_def)
  have 7: "geoToDecimal (Some (dmsTag (45, 1) (30, 1) (0, 1))) (Some (textTag ''S'')) = - 45.5"
    by (simp add: geoToDecimal_def dmsTag_def textTag_def toUpper_letters evalFrac_def Let_def)
  from 1 2 3 4 5 6 7 show ?thesis by blast
qed


section \<open>Evaluating the examples\<close>

lemmas fs_eval = fs_proj_def fs_in_proj_def fs_abc_def fs_more_def fs_written_def filename_def is_directory_def lookup_def
  is_absolute_def dir_at_def recursive_directory_iterator_def path_append_def indexPathEntry_def
  mark_def markParents.simps has_parent_path_def parent_path_def exists_path_def
  getPathList_def pathListEntry_def getIndexPathList_def

lemmas db_eval = world_of_def row_gone_def row_stale_def row_touched_def row_fresh_def
  row_ddb_def row_root_def journalWrite_def touch_def after_call_def
  syncTransaction_def
  newEntry_def exampleClassifier_def failingOn_def recordingClassifier_def relativeTo_def
  syncIndex_def syncRow_def addToIndex_def addPath_def removeFromIndex_def removePath_def
  rootDirectory_def exec_begin_def exec_commit_def db_rows_def db_write_def select_path_def
  insert_entry_def update_entry_def delete_path_def delete_changes_def doUpdate_def line_def
  checkUpdate_def getModifiedTime_def fileSHA256_def Let_def

lemma root_proj: "rootDirectory (db (world_of rs)) = ''/proj''"
  by (simp add: world_of_def rootDirectory_def parent_path_def is_absolute_def)


section \<open>The loop over the parent paths\<close>

text \<open>
  The parent of an absolute path is absolute, hence never empty: on an absolute
  path the loop over the parents never ends.  The parent of a relative path is
  relative and shorter: on a relative path the loop ends.
\<close>

lemma stem_prefix:
  "\<exists>t. p = rev (dropWhile P (dropWhile Q (rev p))) @ t"
proof -
  obtain t1 where 1: "rev p = t1 @ dropWhile Q (rev p)"
    using takeWhile_dropWhile_id[of Q "rev p"] by metis
  obtain t2 where 2: "dropWhile Q (rev p) = t2 @ dropWhile P (dropWhile Q (rev p))"
    using takeWhile_dropWhile_id[of P "dropWhile Q (rev p)"] by metis
  from 1 2 have "rev p = (t1 @ t2) @ dropWhile P (dropWhile Q (rev p))" by simp
  then have "rev (rev p) = rev ((t1 @ t2) @ dropWhile P (dropWhile Q (rev p)))"
    by (rule arg_cong)
  then have "p = rev (dropWhile P (dropWhile Q (rev p))) @ rev (t1 @ t2)"
    by (simp only: rev_rev_ident rev_append)
  then show ?thesis by blast
qed

lemma parent_path_unfold:
  "parent_path p =
     (if rev (dropWhile (\<lambda>c. c = CHR ''/'') (dropWhile (\<lambda>c. c \<noteq> CHR ''/'') (rev p))) = []
         \<and> is_absolute p
      then ''/''
      else rev (dropWhile (\<lambda>c. c = CHR ''/'') (dropWhile (\<lambda>c. c \<noteq> CHR ''/'') (rev p))))"
  by (simp only: parent_path_def Let_def)

lemma is_absolute_Cons: "is_absolute (c # cs) = (c = CHR ''/'')"
  by (simp add: is_absolute_def)

lemma parent_path_absolute: "is_absolute p \<Longrightarrow> is_absolute (parent_path p)"
proof -
  assume a: "is_absolute p"
  let ?stem = "rev (dropWhile (\<lambda>c. c = CHR ''/'') (dropWhile (\<lambda>c. c \<noteq> CHR ''/'') (rev p)))"
  obtain t where t: "p = ?stem @ t"
    using stem_prefix[of p "\<lambda>c. c = CHR ''/''" "\<lambda>c. c \<noteq> CHR ''/''"] by (elim exE)
  show ?thesis
  proof (cases "?stem = []")
    case True
    from True a have "parent_path p = ''/''"
      by (simp only: parent_path_unfold simp_thms if_True)
    then show ?thesis by (simp only: is_absolute_Cons)
  next
    case False
    then obtain c cs where s: "?stem = c # cs" unfolding neq_Nil_conv by (elim exE)
    from t[unfolded s] have pc: "p = c # (cs @ t)" by (simp only: append_Cons)
    from a have "is_absolute (c # (cs @ t))" by (subst (asm) pc)
    then have c: "c = CHR ''/''" by (simp only: is_absolute_Cons)
    from False have "parent_path p = ?stem"
      by (simp only: parent_path_unfold simp_thms if_False)
    then show ?thesis unfolding s c by (simp only: is_absolute_Cons)
  qed
qed

lemma absolute_has_parent_path: "is_absolute p \<Longrightarrow> has_parent_path p"
  using parent_path_absolute[of p] by (auto simp: has_parent_path_def is_absolute_def)

lemma markParents_Some_relative: "markParents rp directories = Some y \<Longrightarrow> \<not> is_absolute rp"
proof (induction rule: markParents.raw_induct[rotated 1, consumes 1])
  case (1 markParents rp directories y)
  show ?case
  proof
    assume a: "is_absolute rp"
    with 1(2) have "markParents (parent_path rp) (mark (parent_path rp) directories) = Some y"
      by (simp add: absolute_has_parent_path)
    from 1(1)[OF this] parent_path_absolute[OF a] show False by simp
  qed
qed

lemma markParents_absolute: "is_absolute rp \<Longrightarrow> markParents rp directories = None"
  using markParents_Some_relative[of rp directories] by (cases "markParents rp directories") auto

lemma parent_path_relative:
  assumes "\<not> is_absolute p" and "has_parent_path p"
  shows "\<not> is_absolute (parent_path p) \<and> length (parent_path p) < length p"
proof -
  let ?d = "dropWhile (\<lambda>c. c \<noteq> CHR ''/'') (rev p)"
  let ?stem = "rev (dropWhile (\<lambda>c. c = CHR ''/'') ?d)"
  from assms(1) have pp: "parent_path p = ?stem"
    by (simp only: parent_path_unfold simp_thms if_False)
  from assms(2) have ne: "?stem \<noteq> []"
    unfolding has_parent_path_def pp .
  obtain t where t: "p = ?stem @ t"
    using stem_prefix[of p "\<lambda>c. c = CHR ''/''" "\<lambda>c. c \<noteq> CHR ''/''"] by (elim exE)
  from ne obtain c cs where s: "?stem = c # cs" unfolding neq_Nil_conv by (elim exE)
  from t[unfolded s] have pc: "p = c # (cs @ t)" by (simp only: append_Cons)
  from assms(1) have "\<not> is_absolute (c # (cs @ t))" by (subst (asm) pc)
  then have c: "c \<noteq> CHR ''/''" by (simp add: is_absolute_Cons)
  have rel: "\<not> is_absolute (parent_path p)"
    unfolding pp s using c by (simp add: is_absolute_Cons)
  have dne: "?d \<noteq> []"
  proof
    assume e: "?d = []"
    have "?stem = []" unfolding e by simp
    with ne show False by (simp only: simp_thms)
  qed
  from hd_dropWhile[OF dne] have "hd ?d = CHR ''/''" by (simp only: not_not)
  with dne obtain ds where d: "?d = CHR ''/'' # ds" by (cases ?d) auto
  have "length (dropWhile (\<lambda>c. c = CHR ''/'') ds) \<le> length ds" by (rule length_dropWhile_le)
  then have 1: "length (dropWhile (\<lambda>c. c = CHR ''/'') ?d) < length ?d"
    unfolding d by simp
  have 2: "length ?d \<le> length (rev p)" by (rule length_dropWhile_le)
  have 3: "length ?stem = length (dropWhile (\<lambda>c. c = CHR ''/'') ?d)" by (rule length_rev)
  have 4: "length (rev p) = length p" by (rule length_rev)
  from 1 2 3 4 have "length ?stem < length p" by linarith
  with rel show ?thesis unfolding pp by (rule_tac conjI)
qed

lemma markParents_relative: "\<not> is_absolute rp \<Longrightarrow> \<exists>y. markParents rp directories = Some y"
proof (induction "length rp" arbitrary: rp directories rule: less_induct)
  case less
  show ?case
  proof (cases "has_parent_path rp")
    case False
    then show ?thesis by (subst markParents.simps) simp
  next
    case True
    from parent_path_relative[OF less.prems True]
    have "\<not> is_absolute (parent_path rp)" "length (parent_path rp) < length rp" by auto
    from less.hyps[OF this(2) this(1)] True show ?thesis
      by (subst markParents.simps) simp
  qed
qed


section \<open>Depth limit\<close>

lemma iterate_below_norec: "norec rp d \<Longrightarrow> iterate_below norec rp d n = []"
  by (cases n) simp_all

lemma iterate_entries_norec:
  "(\<And>rp. norec rp d) \<Longrightarrow>
   iterate_entries norec dir d es = map (\<lambda>(name, n). (path_append dir name, d, n)) es"
  by (induction es) (auto simp: iterate_below_norec)

lemma foldl_pathListEntry:
  "foldl (pathListEntry includeDirs) result ents
   = result @ map fst (filter (\<lambda>(rp, d, n). is_dir n \<longrightarrow> includeDirs) ents)"
  by (induction ents arbitrary: result) (auto simp: pathListEntry_def split: if_splits)

text \<open>
  Claim C5, as amended.  With \<open>maxDepth = 1\<close> the recursion is disabled on every
  entry of depth 0, so resolving a directory yields exactly its direct entries,
  each file and, only if directory inclusion is requested, each directory, and
  nothing below them.  On a root containing \<^verbatim>\<open>a/b/c.txt\<close> the list includes
  \<^verbatim>\<open>a\<close> if and only if directory inclusion is requested, and never \<^verbatim>\<open>a/b\<close> or
  \<^verbatim>\<open>a/b/c.txt\<close>.
\<close>

theorem getPathList_maxDepth_1:
  assumes "lookup fs p = Some (Dir m es)" and "filename p \<noteq> ''.ddb''"
  shows "getPathList fs [p] includeDirs 1
         = Inr (map (\<lambda>(name, n). path_append p name)
                    (filter (\<lambda>(name, n). is_dir n \<longrightarrow> includeDirs) es))"
proof -
  have it: "recursive_directory_iterator fs p (\<lambda>rp d. filename rp = ''.ddb'' \<or> ((1::int) > 0 \<and> int d \<ge> 1 - 1))
            = map (\<lambda>(name, n). (path_append p name, 0, n)) es"
    using assms(1) by (simp add: recursive_directory_iterator_def iterate_entries_norec)
  have "map fst (filter (\<lambda>(rp, d, n). is_dir n \<longrightarrow> includeDirs) (map (\<lambda>(name, n). (path_append p name, 0::nat, n)) es))
        = map (\<lambda>(name, n). path_append p name) (filter (\<lambda>(name, n). is_dir n \<longrightarrow> includeDirs) es)"
    by (induction es) auto
  with assms it show ?thesis
    by (simp add: getPathList_def is_directory_def foldl_pathListEntry)
qed

text \<open>
  The scenario as the specification words it (\<^verbatim>\<open>a\<close> included, \<^verbatim>\<open>a/b\<close> included
  exactly when directory inclusion is requested) fails in both modes: with
  directory inclusion \<^verbatim>\<open>a/b\<close> is not reached, without it \<^verbatim>\<open>a\<close> is not listed.
\<close>

theorem depthLimit_counterexample:
  "\<not> depthLimit_claimed fs_abc True \<and> \<not> depthLimit_claimed fs_abc False"
  by (simp add: depthLimit_claimed_def fs_eval)

theorem getPathList_maxDepth_1_witness:
  "lookup fs_abc ''root'' = Some (Dir 10 [(''a'', Dir 20 [(''b'', Dir 30 [(''c.txt'', File 40 ''h1'')])])])
   \<and> filename ''root'' \<noteq> ''.ddb''
   \<and> getPathList fs_abc [''root''] True 1 = Inr [''root/a'']
   \<and> getPathList fs_abc [''root''] False 1 = Inr []
   \<and> depthLimit_amended fs_abc True \<and> depthLimit_amended fs_abc False"
proof -
  have l: "lookup fs_abc ''root'' = Some (Dir 10 [(''a'', Dir 20 [(''b'', Dir 30 [(''c.txt'', File 40 ''h1'')])])])"
    by (simp add: fs_abc_def lookup_def is_absolute_def dir_at_def)
  have f: "filename ''root'' \<noteq> ''.ddb''" by (simp add: filename_def)
  from getPathList_maxDepth_1[OF l f, of True] getPathList_maxDepth_1[OF l f, of False] l f
  show ?thesis by (simp add: depthLimit_amended_def path_append_def is_absolute_def)
qed


section \<open>The private storage directory\<close>

text \<open>
  Claim C6 says that no path whose final segment is \<^verbatim>\<open>.ddb\<close> appears in the
  resolved list.  For an entry named \<^verbatim>\<open>.ddb\<close> met during the iteration the code
  only disables the recursion below it; the entry itself goes through the rest
  of the loop body.  On the tracked root \<^verbatim>\<open>proj\<close>, which holds the directory
  \<^verbatim>\<open>.ddb\<close>, the path \<^verbatim>\<open>proj/.ddb\<close> is in the result of \<open>getPathList\<close> with
  directory inclusion and in the result of \<open>getIndexPathList\<close> in both modes,
  whatever the order \<open>ranking\<close> in which the map of the directories is
  iterated.
\<close>

theorem ddb_directory_is_listed:
  "getPathList fs_proj [''proj''] True 0 = Inr [''proj/.ddb'', ''proj/img.jpg'']
   \<and> getIndexPathList ranking (\<lambda>rootDirectory paths. True) fs_proj ''/proj'' [''proj''] False
       = Some (Inr [''proj/.ddb'', ''proj/img.jpg'', ''proj''])
   \<and> getIndexPathList ranking (\<lambda>rootDirectory paths. True) fs_proj ''/proj'' [''proj''] True
       = Some (Inr (''proj/img.jpg'' #
                    (if ranking ''proj/.ddb'' \<le> ranking ''proj''
                     then [''proj/.ddb'', ''proj''] else [''proj'', ''proj/.ddb''])))
   \<and> filename ''proj/.ddb'' = ''.ddb''"
  by (simp add: fs_eval)


section \<open>Change detection\<close>

lemma checkUpdate_touched:
  assumes "lookup fs p = Some (File m h)" and "m \<noteq> dbMtime"
  shows "checkUpdate fs e p dbMtime h = Inr (False, e\<lparr>e_mtime := m, e_hash := h\<rparr>)"
  using assms
  by (simp add: checkUpdate_def getModifiedTime_def fileSHA256_def is_directory_def Let_def)

text \<open>
  Claim C1: for a tracked file whose live modification time differs from the
  stored one while its recomputed hash equals the stored hash, \<open>checkUpdate\<close>
  reports no change; the pass of \<open>syncTransaction\<close> over its row, and the pass of
  \<open>addToIndex\<close> over its path when the lookup finds the row, end normally and
  leave the table and the output exactly as they were.  The row keeps its old
  modification time.
\<close>

theorem touched_file_is_unchanged:
  assumes "lookup fs p = Some (File m (e_hash row))" and "m \<noteq> e_mtime row"
  shows "checkUpdate fs e p (e_mtime row) (e_hash row) = Inr (False, e\<lparr>e_mtime := m, e_hash := e_hash row\<rparr>)
       \<and> (p = path_append directory (e_path row) \<longrightarrow> syncRow ext fs directory row w = Done w)
       \<and> (select_path (db w) (relativePath ext p directory) = Some row
            \<longrightarrow> addPath ext fs directory p w = Done w)"
  using assms checkUpdate_touched[OF assms, of newEntry] checkUpdate_touched[OF assms, of e]
  by (auto simp: syncRow_def addPath_def exists_path_def Let_def)

theorem touched_file_is_unchanged_witness:
  "lookup fs_proj ''/proj/img.jpg'' = Some (File 40 (e_hash row_touched))
   \<and> 40 \<noteq> e_mtime row_touched
   \<and> checkUpdate fs_proj newEntry ''/proj/img.jpg'' (e_mtime row_touched) (e_hash row_touched)
       = Inr (False, newEntry\<lparr>e_mtime := 40, e_hash := ''h1''\<rparr>)
   \<and> syncRow (exampleClassifier fs_proj) fs_proj ''/proj'' row_touched (world_of [row_touched])
       = Done (world_of [row_touched])
   \<and> addPath (exampleClassifier fs_proj) fs_proj ''/proj'' ''/proj/img.jpg'' (world_of [row_touched])
       = Done (world_of [row_touched])"
proof -
  have f: "lookup fs_proj ''/proj/img.jpg'' = Some (File 40 (e_hash row_touched))"
    by (simp add: fs_eval row_touched_def)
  have t: "40 \<noteq> e_mtime row_touched" by (simp add: row_touched_def)
  have p: "''/proj/img.jpg'' = path_append ''/proj'' (e_path row_touched)"
    by (simp add: path_append_def is_absolute_def row_touched_def)
  have s: "select_path (db (world_of [row_touched]))
             (relativePath (exampleClassifier fs_proj) ''/proj/img.jpg'' ''/proj'') = Some row_touched"
    by (simp add: select_path_def world_of_def db_rows_def exampleClassifier_def relativeTo_def
        is_absolute_def row_touched_def)
  from touched_file_is_unchanged[OF f t, of newEntry "''/proj''" "exampleClassifier fs_proj" "world_of [row_touched]"]
    f t p s
  show ?thesis by (simp add: row_touched_def)
qed


section \<open>Running sync twice\<close>

lemma syncRow_upToDate: "upToDate fs directory row \<Longrightarrow> syncRow ext fs directory row w = Done w"
  by (auto simp: upToDate_def syncRow_def Let_def split: sum.splits)

lemma syncRows_upToDate:
  "\<forall>row \<in> set rows. upToDate fs directory row \<Longrightarrow> syncRows ext fs directory rows w = Done w"
  by (induction rows) (simp_all add: syncRow_upToDate)

lemma syncTransaction_upToDate:
  assumes "transaction (db w) = None"
      and "\<forall>row \<in> set (committed (db w)). upToDate fs (rootDirectory (db w)) row"
  shows "syncTransaction ext fs w = Done w"
  using assms
  by (simp add: syncTransaction_def exec_begin_def exec_commit_def db_rows_def syncRows_upToDate Let_def)

lemma upToDate_parsed:
  assumes "exists_path fs (path_append directory (e_path row))"
      and "getModifiedTime fs (path_append directory (e_path row)) = Inr (e_mtime row)"
  shows "upToDate fs directory row"
  using assms by (simp add: upToDate_def checkUpdate_def Let_def)

lemma syncRow_invariant:
  assumes step: "syncRow ext fs directory row w = Done w'"
      and tx: "transaction (db w) = Some rs"
      and inv: "\<forall>x \<in> set rs. upToDate fs directory x \<or> x \<in> set (row # todo)"
      and parse: "\<forall>e e'. parseEntry ext (path_append directory (e_path row)) directory e = Inr e'
                    \<longrightarrow> e_path e' = e_path row
                        \<and> getModifiedTime fs (path_append directory (e_path row)) = Inr (e_mtime e')"
  shows "\<exists>rs'. transaction (db w') = Some rs'
            \<and> (\<forall>x \<in> set rs'. upToDate fs directory x \<or> x \<in> set todo)
            \<and> openFile (db w') = openFile (db w) \<and> committed (db w') = committed (db w)"
proof (cases "exists_path fs (path_append directory (e_path row))")
  case False
  with step have w': "w' = w\<lparr>db := delete_path (e_path row) (db w), out := out w @ [line ''D'' (e_path row)]\<rparr>"
    by (simp add: syncRow_def Let_def)
  have "\<forall>x \<in> set (filter (\<lambda>r. e_path r \<noteq> e_path row) rs). upToDate fs directory x \<or> x \<in> set todo"
    using inv by auto
  with tx show ?thesis
    unfolding w' by (simp add: delete_path_def db_write_def db_rows_def)
next
  case ex: True
  show ?thesis
  proof (cases "checkUpdate fs newEntry (path_append directory (e_path row)) (e_mtime row) (e_hash row)")
    case (Inl err)
    with step ex show ?thesis by (simp add: syncRow_def Let_def)
  next
    case (Inr r)
    obtain changed e where r: "r = (changed, e)" by (cases r)
    show ?thesis
    proof (cases changed)
      case False
      with step ex Inr r have "w' = w" by (simp add: syncRow_def Let_def)
      moreover from ex Inr r False have "upToDate fs directory row" by (simp add: upToDate_def Let_def)
      ultimately show ?thesis using tx inv by auto
    next
      case True
      with step ex Inr r obtain e' where
        p: "parseEntry ext (path_append directory (e_path row)) directory e = Inr e'" and
        w': "w' = doUpdate e' w"
        by (auto simp: syncRow_def Let_def split: sum.splits)
      from parse[rule_format, OF p] have pe: "e_path e' = e_path row"
        and mt: "getModifiedTime fs (path_append directory (e_path row)) = Inr (e_mtime e')"
        by (rule conjunct1, rule conjunct2)
      from ex mt pe have up: "upToDate fs directory e'"
        by (intro upToDate_parsed) simp_all
      have "\<forall>x \<in> set (map (\<lambda>r. if e_path r = e_path e' then e' else r) rs). upToDate fs directory x \<or> x \<in> set todo"
        using inv up pe by auto
      with tx show ?thesis
        unfolding w' by (simp add: doUpdate_def update_entry_def db_write_def db_rows_def)
    qed
  qed
qed

lemma syncRows_invariant:
  assumes "syncRows ext fs directory todo w = Done w'"
      and "transaction (db w) = Some rs"
      and "\<forall>x \<in> set rs. upToDate fs directory x \<or> x \<in> set todo"
      and "\<forall>row \<in> set todo. \<forall>e e'. parseEntry ext (path_append directory (e_path row)) directory e = Inr e'
                    \<longrightarrow> e_path e' = e_path row
                        \<and> getModifiedTime fs (path_append directory (e_path row)) = Inr (e_mtime e')"
  shows "\<exists>rs'. transaction (db w') = Some rs'
            \<and> (\<forall>x \<in> set rs'. upToDate fs directory x)
            \<and> openFile (db w') = openFile (db w) \<and> committed (db w') = committed (db w)"
  using assms
proof (induction todo arbitrary: w rs)
  case Nil
  then show ?case by auto
next
  case (Cons row todo)
  from Cons.prems(1) obtain w1 where
    s1: "syncRow ext fs directory row w = Done w1" and
    s2: "syncRows ext fs directory todo w1 = Done w'"
    by (auto split: outcome.splits)
  have parse: "\<forall>e e'. parseEntry ext (path_append directory (e_path row)) directory e = Inr e'
                    \<longrightarrow> e_path e' = e_path row
                        \<and> getModifiedTime fs (path_append directory (e_path row)) = Inr (e_mtime e')"
    by (rule bspec[OF Cons.prems(4) list.set_intros(1)])
  from syncRow_invariant[OF s1 Cons.prems(2) Cons.prems(3) parse]
  obtain rs1 where tx1: "transaction (db w1) = Some rs1"
    and inv1: "\<forall>x \<in> set rs1. upToDate fs directory x \<or> x \<in> set todo"
    and same: "openFile (db w1) = openFile (db w)" "committed (db w1) = committed (db w)"
    by blast
  have rest: "\<forall>r \<in> set todo. \<forall>e e'. parseEntry ext (path_append directory (e_path r)) directory e = Inr e'
                    \<longrightarrow> e_path e' = e_path r
                        \<and> getModifiedTime fs (path_append directory (e_path r)) = Inr (e_mtime e')"
  proof
    fix r
    assume "r \<in> set todo"
    then have m: "r \<in> set (row # todo)" by (rule list.set_intros(2))
    show "\<forall>e e'. parseEntry ext (path_append directory (e_path r)) directory e = Inr e'
                    \<longrightarrow> e_path e' = e_path r
                        \<and> getModifiedTime fs (path_append directory (e_path r)) = Inr (e_mtime e')"
      by (rule bspec[OF Cons.prems(4) m])
  qed
  from Cons.IH[OF s2 tx1 inv1 rest] same show ?case by simp
qed

lemma syncTransaction_settles:
  assumes run: "syncTransaction ext fs w = Done w1"
      and parse: "\<forall>row \<in> set (committed (db w)). \<forall>e e'.
                    parseEntry ext (path_append (rootDirectory (db w)) (e_path row)) (rootDirectory (db w)) e = Inr e'
                    \<longrightarrow> e_path e' = e_path row
                        \<and> getModifiedTime fs (path_append (rootDirectory (db w)) (e_path row)) = Inr (e_mtime e')"
  shows "transaction (db w1) = None \<and> rootDirectory (db w1) = rootDirectory (db w)
       \<and> (\<forall>row \<in> set (committed (db w1)). upToDate fs (rootDirectory (db w)) row)"
proof -
  let ?dir = "rootDirectory (db w)"
  from run have t0: "transaction (db w) = None"
    by (auto simp: syncTransaction_def exec_begin_def Let_def split: option.splits)
  let ?w0 = "w\<lparr>db := (db w)\<lparr>transaction := Some (committed (db w))\<rparr>\<rparr>"
  from run t0 obtain w' where
    loop: "syncRows ext fs ?dir (committed (db w)) ?w0 = Done w'" and
    fin: "(case exec_commit (db w') of Inl err \<Rightarrow> Raised err w' | Inr db2 \<Rightarrow> Done (w'\<lparr>db := db2\<rparr>)) = Done w1"
    by (auto simp: syncTransaction_def exec_begin_def db_rows_def Let_def split: outcome.splits)
  have tx0: "transaction (db ?w0) = Some (committed (db w))" by simp
  have inv0: "\<forall>x \<in> set (committed (db w)). upToDate fs ?dir x \<or> x \<in> set (committed (db w))" by simp
  from syncRows_invariant[OF loop tx0 inv0 parse]
  obtain rs' where tx': "transaction (db w') = Some rs'"
    and up: "\<forall>x \<in> set rs'. upToDate fs ?dir x"
    and same: "openFile (db w') = openFile (db ?w0)" by blast
  from fin tx' have w1: "w1 = w'\<lparr>db := (db w')\<lparr>committed := rs', transaction := None\<rparr>\<rparr>"
    by (simp add: exec_commit_def)
  from up same show ?thesis unfolding w1 by (simp add: rootDirectory_def)
qed

text \<open>
  On one and the same file system a second run finds every row up to date: it
  writes no line and changes no row.  (The classifier is assumed to return, for
  the file of a row, that row's path and the file's live modification time.)
\<close>

lemma syncTransaction_twice:
  assumes run: "syncTransaction ext fs w = Done w1"
      and parse: "\<forall>row \<in> set (committed (db w)). \<forall>e e'.
                    parseEntry ext (path_append (rootDirectory (db w)) (e_path row)) (rootDirectory (db w)) e = Inr e'
                    \<longrightarrow> e_path e' = e_path row
                        \<and> getModifiedTime fs (path_append (rootDirectory (db w)) (e_path row)) = Inr (e_mtime e')"
  shows "syncTransaction ext fs w1 = Done w1"
proof -
  from syncTransaction_settles[OF run parse] show ?thesis
    by (intro syncTransaction_upToDate) simp_all
qed

lemma first_sync:
  "syncTransaction (exampleClassifier fs_proj) fs_proj (world_of [row_gone, row_stale])
     = Done ((world_of [row_fresh])\<lparr>out := [line ''D'' ''gone.jpg'', line ''U'' ''img.jpg'']\<rparr>)"
  by (simp add: db_eval fs_eval)

lemma syncTransaction_twice_example:
  "syncTransaction (exampleClassifier fs_proj) fs_proj (world_of [row_gone, row_stale])
     = Done ((world_of [row_fresh])\<lparr>out := [line ''D'' ''gone.jpg'', line ''U'' ''img.jpg'']\<rparr>)
   \<and> syncTransaction (exampleClassifier fs_proj) fs_proj
        ((world_of [row_fresh])\<lparr>out := [line ''D'' ''gone.jpg'', line ''U'' ''img.jpg'']\<rparr>)
     = Done ((world_of [row_fresh])\<lparr>out := [line ''D'' ''gone.jpg'', line ''U'' ''img.jpg'']\<rparr>)"
proof -
  have parse: "\<forall>row \<in> set (committed (db (world_of [row_gone, row_stale]))). \<forall>e e'.
       parseEntry (exampleClassifier fs_proj)
         (path_append (rootDirectory (db (world_of [row_gone, row_stale]))) (e_path row))
         (rootDirectory (db (world_of [row_gone, row_stale]))) e = Inr e'
       \<longrightarrow> e_path e' = e_path row
          \<and> getModifiedTime fs_proj
              (path_append (rootDirectory (db (world_of [row_gone, row_stale]))) (e_path row))
            = Inr (e_mtime e')"
    unfolding root_proj
    by (auto simp: world_of_def row_gone_def row_stale_def newEntry_def exampleClassifier_def
        relativeTo_def getModifiedTime_def fs_eval split: sum.splits option.splits)
  from syncTransaction_twice[OF first_sync parse] first_sync show ?thesis by simp
qed


text \<open>
  \<^verbatim>\<open>syncIndex\<close> leaves a file system of its own: a second run reads what the
  first run left.  When the store's writes left the file of every row as it
  was, the second run finds every row up to date.
\<close>

lemma fst_syncIndex: "fst (syncIndex ext fs w) = syncTransaction ext fs w"
  by (simp add: syncIndex_def Let_def)

lemma upToDate_same_file:
  assumes "lookup fs' (path_append directory (e_path row)) = lookup fs (path_append directory (e_path row))"
  shows "upToDate fs' directory row = upToDate fs directory row"
  unfolding upToDate_def checkUpdate_def exists_path_def getModifiedTime_def fileSHA256_def
    is_directory_def Let_def assms ..

lemma syncIndex_twice:
  assumes run: "syncIndex ext fs w = (Done w1, fs1)"
      and parse: "\<forall>row \<in> set (committed (db w)). \<forall>e e'.
                    parseEntry ext (path_append (rootDirectory (db w)) (e_path row)) (rootDirectory (db w)) e = Inr e'
                    \<longrightarrow> e_path e' = e_path row
                        \<and> getModifiedTime fs (path_append (rootDirectory (db w)) (e_path row)) = Inr (e_mtime e')"
      and same: "\<forall>row \<in> set (committed (db w1)).
                    lookup fs1 (path_append (rootDirectory (db w)) (e_path row))
                    = lookup fs (path_append (rootDirectory (db w)) (e_path row))"
  shows "fst (syncIndex ext' fs1 w1) = Done w1"
proof -
  from run have r: "syncTransaction ext fs w = Done w1"
    by (simp add: syncIndex_def Let_def)
  from syncTransaction_settles[OF r parse]
  have t: "transaction (db w1) = None" and d: "rootDirectory (db w1) = rootDirectory (db w)"
    and up: "\<forall>row \<in> set (committed (db w1)). upToDate fs (rootDirectory (db w)) row"
    by simp_all
  have "\<forall>row \<in> set (committed (db w1)). upToDate fs1 (rootDirectory (db w1)) row"
  proof
    fix row assume m: "row \<in> set (committed (db w1))"
    from upToDate_same_file[OF bspec[OF same m]] bspec[OF up m]
    show "upToDate fs1 (rootDirectory (db w1)) row" unfolding d by simp
  qed
  from syncTransaction_upToDate[OF t this] show ?thesis by (simp add: fst_syncIndex)
qed

text \<open>
  Path resolution lists the directory \<^verbatim>\<open>.ddb\<close> that it meets below a candidate,
  and \<open>addToIndex\<close> inserts a row for every path of the list: \<^verbatim>\<open>add proj\<close> gives
  \<^verbatim>\<open>.ddb\<close> a row.
\<close>

lemma add_gives_ddb_a_row:
  "addToIndex (exampleClassifier fs_proj) fs_proj [''proj''] (world_of [])
     = Some (Done ((world_of [row_fresh, row_ddb, row_root])
                   \<lparr>out := [line ''A'' ''img.jpg'', line ''A'' ''.ddb'', line ''A'' ''.'']\<rparr>))"
  by (simp add: db_eval fs_eval)

text \<open>
  Claim C2 says that a second run of sync, with no change of the file system
  between the two runs, writes no line and makes no insert, update or delete.
  A run that changes the index writes its store, and the store lies in the
  directory \<^verbatim>\<open>.ddb\<close> of the tracked tree; \<open>checkUpdate\<close> counts a directory as
  changed as soon as its modification time moved.  The index of \<^verbatim>\<open>/proj\<close> holds
  the rows of the image, of \<^verbatim>\<open>.ddb\<close> and of the root, each with the time its
  file has, and a second image is put into the root (\<open>fs_more\<close>).  The first
  sync finds the rows of the image and of \<^verbatim>\<open>.ddb\<close> up to date and updates the
  row of the root, whose time moved; its write leaves the file system
  \<open>fs_written\<close>, where the store and its directory carry the time of the write.
  The second sync, run on that very file system and on the table the first one
  left, updates the row of \<^verbatim>\<open>.ddb\<close> and prints \<^verbatim>\<open>U .ddb\<close>.
\<close>

theorem second_sync_updates_ddb:
  "syncIndex (exampleClassifier fs_more) fs_more (world_of [row_fresh, row_ddb, row_root])
     = (Done ((world_of [row_fresh, row_ddb, row_root\<lparr>e_mtime := 50\<rparr>])\<lparr>out := [line ''U'' ''.'']\<rparr>),
        fs_written)
   \<and> fst (syncIndex (exampleClassifier fs_written) fs_written
             (world_of [row_fresh, row_ddb, row_root\<lparr>e_mtime := 50\<rparr>]))
     = Done ((world_of [row_fresh, row_ddb\<lparr>e_mtime := 100\<rparr>, row_root\<lparr>e_mtime := 50\<rparr>])
             \<lparr>out := [line ''U'' ''.ddb'']\<rparr>)"
  by (simp add: db_eval fs_eval)

text \<open>
  Without a row for \<^verbatim>\<open>.ddb\<close> the same two runs end as the claim says: the
  second one prints nothing and leaves the table as it is.
\<close>

lemma second_sync_without_ddb_row:
  "syncIndex (exampleClassifier fs_more) fs_more (world_of [row_fresh, row_root])
     = (Done ((world_of [row_fresh, row_root\<lparr>e_mtime := 50\<rparr>])\<lparr>out := [line ''U'' ''.'']\<rparr>),
        fs_written)
   \<and> fst (syncIndex (exampleClassifier fs_written) fs_written
             (world_of [row_fresh, row_root\<lparr>e_mtime := 50\<rparr>]))
     = Done (world_of [row_fresh, row_root\<lparr>e_mtime := 50\<rparr>])"
  by (simp add: db_eval fs_eval)


section \<open>Atomicity\<close>










lemma syncTransaction_in_open_transaction:
  "transaction (db w) = Some rs \<Longrightarrow>
   syncTransaction ext fs w = Raised (SQLException ''cannot start a transaction within a transaction'') w"
  by (simp add: syncTransaction_def exec_begin_def Let_def)








lemma checkUpdate_hash_error:
  "getModifiedTime fs p = Inr t \<Longrightarrow> t \<noteq> m \<Longrightarrow> \<not> is_directory fs p \<Longrightarrow>
   fileSHA256 fs p = Inl err \<Longrightarrow> checkUpdate fs e p m h = Inl err"
  by (simp add: checkUpdate_def Let_def)












section \<open>Paths outside the tracked root\<close>

text \<open>
  Claim C4 says that every entry that \<open>addToIndex\<close> stores designates a location
  inside the tracked root.  The loop over the parents of an included file walks
  up to the first component of the path as it was given, not up to the root:
  for the candidate \<^verbatim>\<open>../proj/img.jpg\<close>, given in the working directory \<^verbatim>\<open>/proj\<close>
  (the tracked root), the path list holds \<^verbatim>\<open>..\<close>, which is the parent
  directory of the root, whatever the order in which the keys of the map of
  directories come out.  \<open>addToIndex\<close> classifies every path of the list and
  inserts the entry it gets: with a classifier that stores the path it was
  given, the table gets a row for \<^verbatim>\<open>..\<close>, in the one order of the keys and in
  the other.
\<close>

theorem add_indexes_parent_of_root:
  "getIndexPathList ranking (\<lambda>rootDirectory paths. True) fs_in_proj ''/proj'' [''../proj/img.jpg''] True
     = Some (Inr (''../proj/img.jpg''
                  # (if ranking ''../proj'' \<le> ranking ''..'' then [''../proj'', ''..'']
                     else [''..'', ''../proj''])))
   \<and> lookup fs_in_proj ''..'' = Some (fs_tree fs_in_proj)
   \<and> lookup fs_in_proj ''/proj'' \<noteq> lookup fs_in_proj ''..''
   \<and> addToIndex recordingClassifier fs_in_proj [''../proj/img.jpg''] (world_of [])
     = Some (Done ((world_of [newEntry\<lparr>e_path := ''../proj/img.jpg''\<rparr>,
                              newEntry\<lparr>e_path := ''../proj''\<rparr>,
                              newEntry\<lparr>e_path := ''..''\<rparr>])
                   \<lparr>out := [line ''A'' ''../proj/img.jpg'', line ''A'' ''../proj'',
                            line ''A'' ''..'']\<rparr>))
   \<and> addToIndex (recordingClassifier\<lparr>bucket := (\<lambda>k. if k = ''..'' then 0 else 1)\<rparr>)
        fs_in_proj [''../proj/img.jpg''] (world_of [])
     = Some (Done ((world_of [newEntry\<lparr>e_path := ''../proj/img.jpg''\<rparr>,
                              newEntry\<lparr>e_path := ''..''\<rparr>,
                              newEntry\<lparr>e_path := ''../proj''\<rparr>])
                   \<lparr>out := [line ''A'' ''../proj/img.jpg'', line ''A'' ''..'',
                            line ''A'' ''../proj'']\<rparr>))"
  by (simp add: db_eval fs_eval)

text \<open>
  With an absolute candidate the same loop never ends (\<open>markParents_absolute\<close>),
  and \<open>addToIndex\<close> does not return.
\<close>

lemma addToIndex_absolute_file:
  "addToIndex (exampleClassifier fs_proj) fs_proj [''/proj/img.jpg''] (world_of []) = None"
  by (simp add: addToIndex_def getIndexPathList_def exampleClassifier_def root_proj
      filename_def is_directory_def exists_path_def lookup_def fs_proj_def is_absolute_def
      dir_at_def markParents_absolute)

end
